theory Spec2Isabelle
  imports Complex_Main "HOL-Library.List_Lexorder" "HOL-Library.Monad_Syntax"
begin

text \<open>
  A shallow embedding of the backend of the job-search service: the profile models, the
  completeness scorer, the CV extraction chain with its retry loop, the validation of a
  response against the declared models, and the job-matching endpoint. Definitions come
  first, each from the source file named in its section; the properties follow.
\<close>

section \<open>Python values\<close>

text \<open>
  A Python \<open>str\<close> is a sequence of Unicode code points; it is modelled as a list of
  natural numbers, so that \<open>len\<close> counts code points and \<open><\<close> on strings is the
  lexicographic order on code points (the order of \<open>HOL-Library.List_Lexorder\<close>, in
  which a proper prefix is smaller). Literals of the source are written with \<open>lit\<close>.
\<close>

type_synonym ustr = "nat list"

definition lit :: "string \<Rightarrow> ustr" where
  "lit s = map of_char s"

text \<open>Truthiness (\<open>if x:\<close>) of the optional values the source tests.\<close>

definition truthy_str :: "ustr \<Rightarrow> bool" where
  "truthy_str s = (s \<noteq> [])"

definition truthy_opt_str :: "ustr option \<Rightarrow> bool" where
  "truthy_opt_str x = (case x of None \<Rightarrow> False | Some s \<Rightarrow> s \<noteq> [])"

definition truthy_opt_float :: "real option \<Rightarrow> bool" where
  "truthy_opt_float x = (case x of None \<Rightarrow> False | Some g \<Rightarrow> g \<noteq> 0)"

section \<open>The Profile data model (app/models/profile.py)\<close>

datatype DegreeType = HIGH_SCHOOL | ASSOCIATE | BACHELOR | MASTER | DOCTORATE
  | PROFESSIONAL | CERTIFICATE | BOOTCAMP

datatype SkillCategory = LANGUAGE | FRAMEWORK | DATABASE | CLOUD | DEVOPS | TOOL | OTHER

datatype SkillProficiency = BEGINNER | INTERMEDIATE | ADVANCED | EXPERT

datatype EmploymentType = FULL_TIME | PART_TIME | CONTRACT | FREELANCE | INTERNSHIP

datatype RemoteType = REMOTE | HYBRID | ON_SITE

datatype CompanySize = STARTUP | SMALL | MEDIUM | LARGE | ENTERPRISE

datatype LanguageProficiency = ELEMENTARY | LIMITED_WORKING | PROFESSIONAL_WORKING
  | FULL_PROFESSIONAL | NATIVE

text \<open>
  Field names are those of the source; a field name that several models share
  (\<open>id\<close>, \<open>name\<close>, \<open>location\<close>, \<open>start_date\<close>, ...) carries the model's tag as a prefix.
\<close>

record Location =
  city :: "ustr option"
  state :: "ustr option"
  country :: ustr
  postal_code :: "ustr option"
  willing_to_relocate :: bool
  relocation_preferences :: "ustr list option"

record PersonalInfo =
  first_name :: ustr
  last_name :: ustr
  email :: ustr
  phone :: "ustr option"
  location :: Location
  linkedin :: "ustr option"
  github :: "ustr option"
  portfolio :: "ustr option"
  summary :: "ustr option"

record Achievement =
  ach_description :: ustr
  metric :: "ustr option"

record WorkExperience =
  we_id :: ustr
  title :: ustr
  company :: ustr
  company_size :: "CompanySize option"
  industry :: "ustr option"
  we_location :: "ustr option"
  remote :: "RemoteType option"
  we_start_date :: ustr
  we_end_date :: "ustr option"
  is_current :: bool
  responsibilities :: "ustr list"
  achievements :: "Achievement list"
  skills_used :: "ustr list"
  employment_type :: EmploymentType

record Education =
  edu_id :: ustr
  institution :: ustr
  degree :: DegreeType
  field :: ustr
  edu_start_date :: "ustr option"
  graduation_date :: "ustr option"
  gpa :: "real option"
  honors :: "ustr option"
  relevant_coursework :: "ustr list option"
  activities :: "ustr list option"

record TechnicalSkill =
  ts_name :: ustr
  category :: SkillCategory
  ts_proficiency :: SkillProficiency
  years_of_experience :: "real option"
  last_used :: "ustr option"

record SoftSkill =
  ss_name :: ustr
  ss_proficiency :: "SkillProficiency option"

record LanguageSkill =
  language :: ustr
  ls_proficiency :: LanguageProficiency
  ls_certifications :: "ustr list option"

record Skills =
  technical :: "TechnicalSkill list"
  soft :: "SoftSkill list"
  languages :: "LanguageSkill list"

record Certification =
  cert_id :: ustr
  cert_name :: ustr
  issuer :: ustr
  issue_date :: ustr
  expiration_date :: "ustr option"
  credential_id :: "ustr option"
  credential_url :: "ustr option"

record Project =
  proj_id :: ustr
  proj_name :: ustr
  proj_description :: ustr
  url :: "ustr option"
  repo_url :: "ustr option"
  proj_start_date :: "ustr option"
  proj_end_date :: "ustr option"
  technologies :: "ustr list"
  highlights :: "ustr list"

record Profile =
  personal_info :: PersonalInfo
  work_experience :: "WorkExperience list"
  education :: "Education list"
  skills :: Skills
  certifications :: "Certification list option"
  projects :: "Project list option"

section \<open>The completeness scorer (CVExtractionChain.\_calculate\_confidence)\<close>

text \<open>
  The source accumulates \<open>score\<close> and \<open>max_score\<close> as floats. Every value added is a
  small integer, so the sums are exact; the model computes in \<open>real\<close>, the final
  quotient included.
\<close>

definition calculate_confidence :: "Profile \<Rightarrow> real" where
  "calculate_confidence profile =
    (let score = 0; max_score = 0;
         \<comment> \<open>Personal info (30 points)\<close>
         max_score = max_score + 30;
         score = (if truthy_str (email (personal_info profile)) then score + 10 else score);
         score = (if truthy_opt_str (phone (personal_info profile)) then score + 5 else score);
         score = (if truthy_opt_str (city (location (personal_info profile)))
                  then score + 5 else score);
         score = (if truthy_opt_str (linkedin (personal_info profile))
                     \<or> truthy_opt_str (github (personal_info profile))
                  then score + 5 else score);
         score = (if truthy_opt_str (summary (personal_info profile)) then score + 5 else score);
         \<comment> \<open>Work experience (30 points)\<close>
         max_score = max_score + 30;
         score = (if work_experience profile \<noteq> [] then
                    (let score = score + 15;
                         score = (if length (work_experience profile) \<ge> 2
                                  then score + 5 else score);
                         score = (if list_ex (\<lambda>exp. length (responsibilities exp) \<ge> 3)
                                       (work_experience profile)
                                  then score + 5 else score);
                         score = (if list_ex (\<lambda>exp. achievements exp \<noteq> [])
                                       (work_experience profile)
                                  then score + 5 else score)
                     in score)
                  else score);
         \<comment> \<open>Education (20 points)\<close>
         max_score = max_score + 20;
         score = (if education profile \<noteq> [] then
                    (let score = score + 10;
                         score = (if length (education profile) \<ge> 1
                                  then score + 5 else score);
                         score = (if list_ex (\<lambda>edu. truthy_opt_float (gpa edu))
                                       (education profile)
                                  then score + 5 else score)
                     in score)
                  else score);
         \<comment> \<open>Skills (20 points)\<close>
         max_score = max_score + 20;
         score = (if technical (skills profile) \<noteq> [] then
                    (let score = score + 10;
                         score = (if length (technical (skills profile)) \<ge> 5
                                  then score + 5 else score);
                         score = (if length (technical (skills profile)) \<ge> 10
                                  then score + 5 else score)
                     in score)
                  else score)
     in if max_score > 0 then min (score / max_score) 1 else 0)"

text \<open>
  The four buckets of the scorer, each as the sum of the weights the source adds
  between two \<open>max_score += ...\<close> lines, with the cap the source adds to \<open>max_score\<close>.
\<close>

definition weight :: "bool \<Rightarrow> real \<Rightarrow> real" where
  "weight present w = (if present then w else 0)"

definition identity_points :: "Profile \<Rightarrow> real" where
  "identity_points profile =
     weight (truthy_str (email (personal_info profile))) 10
   + weight (truthy_opt_str (phone (personal_info profile))) 5
   + weight (truthy_opt_str (city (location (personal_info profile)))) 5
   + weight (truthy_opt_str (linkedin (personal_info profile))
             \<or> truthy_opt_str (github (personal_info profile))) 5
   + weight (truthy_opt_str (summary (personal_info profile))) 5"

definition work_points :: "Profile \<Rightarrow> real" where
  "work_points profile =
     weight (work_experience profile \<noteq> []) 15
   + weight (work_experience profile \<noteq> [] \<and> length (work_experience profile) \<ge> 2) 5
   + weight (work_experience profile \<noteq> []
             \<and> list_ex (\<lambda>exp. length (responsibilities exp) \<ge> 3) (work_experience profile)) 5
   + weight (work_experience profile \<noteq> []
             \<and> list_ex (\<lambda>exp. achievements exp \<noteq> []) (work_experience profile)) 5"

definition education_points :: "Profile \<Rightarrow> real" where
  "education_points profile =
     weight (education profile \<noteq> []) 10
   + weight (education profile \<noteq> [] \<and> length (education profile) \<ge> 1) 5
   + weight (education profile \<noteq> []
             \<and> list_ex (\<lambda>edu. truthy_opt_float (gpa edu)) (education profile)) 5"

definition skills_points :: "Profile \<Rightarrow> real" where
  "skills_points profile =
     weight (technical (skills profile) \<noteq> []) 10
   + weight (technical (skills profile) \<noteq> [] \<and> length (technical (skills profile)) \<ge> 5) 5
   + weight (technical (skills profile) \<noteq> [] \<and> length (technical (skills profile)) \<ge> 10) 5"

definition identity_cap :: real where "identity_cap = 30"
definition work_cap :: real where "work_cap = 30"
definition education_cap :: real where "education_cap = 20"
definition skills_cap :: real where "skills_cap = 20"

section \<open>The demo profile (routers/cv.py, get\_demo\_profile)\<close>

text \<open>
  The record that \<open>get_demo_profile\<close> builds, after validation: absent optional fields
  are \<open>None\<close>, absent defaulted fields have their default.
\<close>

definition demo_location :: Location where
  "demo_location =
    \<lparr> city = Some (lit ''Zurich''), state = None, country = lit ''Switzerland'',
      postal_code = None, willing_to_relocate = False, relocation_preferences = None \<rparr>"

definition demo_personal_info :: PersonalInfo where
  "demo_personal_info =
    \<lparr> first_name = lit ''Maxim'', last_name = lit ''Gusev'',
      email = lit ''maxim.gusev@example.com'', phone = Some (lit ''+41 79 987 6543''),
      location = demo_location,
      linkedin = Some (lit ''https://linkedin.com/in/maximgusev''),
      github = Some (lit ''https://github.com/maximgusev''),
      portfolio = None,
      summary = Some (lit ''Machine Learning Engineer with expertise in deep learning, NLP, and computer vision. ETH Zurich MSc graduate with strong foundation in AI research and production ML systems.'') \<rparr>"

definition demo_education :: Education where
  "demo_education =
    \<lparr> edu_id = lit ''edu_eth'', institution = lit ''ETH Zurich'', degree = MASTER,
      field = lit ''Computer Science'', edu_start_date = None,
      graduation_date = Some (lit ''2023-09''), gpa = Some 5.54,
      honors = Some (lit ''Magna Cum Laude''),
      relevant_coursework = Some [lit ''Deep Learning'', lit ''Natural Language Processing'',
        lit ''Computer Vision'', lit ''Probabilistic AI''],
      activities = None \<rparr>"

definition demo_technical :: "TechnicalSkill list" where
  "demo_technical =
    [ \<lparr> ts_name = lit ''Python'', category = LANGUAGE, ts_proficiency = EXPERT,
        years_of_experience = Some 6, last_used = None \<rparr>,
      \<lparr> ts_name = lit ''PyTorch'', category = FRAMEWORK, ts_proficiency = EXPERT,
        years_of_experience = Some 4, last_used = None \<rparr>,
      \<lparr> ts_name = lit ''Transformers'', category = FRAMEWORK, ts_proficiency = ADVANCED,
        years_of_experience = Some 3, last_used = None \<rparr>,
      \<lparr> ts_name = lit ''TensorFlow'', category = FRAMEWORK, ts_proficiency = INTERMEDIATE,
        years_of_experience = Some 2, last_used = None \<rparr> ]"

definition demo_skills :: Skills where
  "demo_skills =
    \<lparr> technical = demo_technical,
      soft = [ \<lparr> ss_name = lit ''Research'', ss_proficiency = Some EXPERT \<rparr>,
               \<lparr> ss_name = lit ''Problem Solving'', ss_proficiency = Some EXPERT \<rparr> ],
      languages =
        [ \<lparr> language = lit ''English'', ls_proficiency = FULL_PROFESSIONAL,
            ls_certifications = None \<rparr>,
          \<lparr> language = lit ''German'', ls_proficiency = LIMITED_WORKING,
            ls_certifications = None \<rparr> ] \<rparr>"

definition demo_profile :: Profile where
  "demo_profile =
    \<lparr> personal_info = demo_personal_info, work_experience = [],
      education = [demo_education], skills = demo_skills,
      certifications = None, projects = None \<rparr>"

text \<open>
  The demo profile with identity fields email, phone and city only: links and summary
  absent.
\<close>

definition demo_profile_no_links :: Profile where
  "demo_profile_no_links =
     demo_profile \<lparr> personal_info :=
       demo_personal_info \<lparr> linkedin := None, github := None, summary := None \<rparr> \<rparr>"

section \<open>One profile populating more than another\<close>

text \<open>
  \<open>q\<close> populates a superset of what \<open>p\<close> populates: a required or defaulted field has
  the same value in both, an optional field that \<open>p\<close> populates has the same value in
  \<open>q\<close>, and a list of \<open>q\<close> is at least as long as the list of \<open>p\<close> and holds, for each
  entry of \<open>p\<close>, an entry that populates a superset of it.
\<close>

definition opt_ext :: "'a option \<Rightarrow> 'a option \<Rightarrow> bool" where
  "opt_ext a b = (case a of None \<Rightarrow> True | Some x \<Rightarrow> b = Some x)"

definition entries_ext :: "('a \<Rightarrow> 'b \<Rightarrow> bool) \<Rightarrow> 'a list \<Rightarrow> 'b list \<Rightarrow> bool" where
  "entries_ext R xs ys = (length xs \<le> length ys \<and> list_all (\<lambda>x. list_ex (R x) ys) xs)"

definition opt_entries_ext ::
  "('a \<Rightarrow> 'b \<Rightarrow> bool) \<Rightarrow> 'a list option \<Rightarrow> 'b list option \<Rightarrow> bool" where
  "opt_entries_ext R a b =
     (case a of None \<Rightarrow> True
      | Some xs \<Rightarrow> (case b of None \<Rightarrow> False | Some ys \<Rightarrow> entries_ext R xs ys))"

definition Location_ext :: "Location \<Rightarrow> Location \<Rightarrow> bool" where
  "Location_ext l l' =
     (opt_ext (city l) (city l') \<and> opt_ext (state l) (state l') \<and> country l = country l'
      \<and> opt_ext (postal_code l) (postal_code l')
      \<and> willing_to_relocate l = willing_to_relocate l'
      \<and> opt_entries_ext (=) (relocation_preferences l) (relocation_preferences l'))"

definition PersonalInfo_ext :: "PersonalInfo \<Rightarrow> PersonalInfo \<Rightarrow> bool" where
  "PersonalInfo_ext a b =
     (first_name a = first_name b \<and> last_name a = last_name b \<and> email a = email b
      \<and> opt_ext (phone a) (phone b) \<and> Location_ext (location a) (location b)
      \<and> opt_ext (linkedin a) (linkedin b) \<and> opt_ext (github a) (github b)
      \<and> opt_ext (portfolio a) (portfolio b) \<and> opt_ext (summary a) (summary b))"

definition WorkExperience_ext :: "WorkExperience \<Rightarrow> WorkExperience \<Rightarrow> bool" where
  "WorkExperience_ext a b =
     (we_id a = we_id b \<and> title a = title b \<and> company a = company b
      \<and> opt_ext (company_size a) (company_size b) \<and> opt_ext (industry a) (industry b)
      \<and> opt_ext (we_location a) (we_location b) \<and> opt_ext (remote a) (remote b)
      \<and> we_start_date a = we_start_date b \<and> opt_ext (we_end_date a) (we_end_date b)
      \<and> is_current a = is_current b
      \<and> entries_ext (=) (responsibilities a) (responsibilities b)
      \<and> entries_ext (=) (achievements a) (achievements b)
      \<and> entries_ext (=) (skills_used a) (skills_used b)
      \<and> employment_type a = employment_type b)"

definition Education_ext :: "Education \<Rightarrow> Education \<Rightarrow> bool" where
  "Education_ext a b =
     (edu_id a = edu_id b \<and> institution a = institution b \<and> degree a = degree b
      \<and> field a = field b \<and> opt_ext (edu_start_date a) (edu_start_date b)
      \<and> opt_ext (graduation_date a) (graduation_date b) \<and> opt_ext (gpa a) (gpa b)
      \<and> opt_ext (honors a) (honors b)
      \<and> opt_entries_ext (=) (relevant_coursework a) (relevant_coursework b)
      \<and> opt_entries_ext (=) (activities a) (activities b))"

definition TechnicalSkill_ext :: "TechnicalSkill \<Rightarrow> TechnicalSkill \<Rightarrow> bool" where
  "TechnicalSkill_ext a b =
     (ts_name a = ts_name b \<and> category a = category b \<and> ts_proficiency a = ts_proficiency b
      \<and> opt_ext (years_of_experience a) (years_of_experience b)
      \<and> opt_ext (last_used a) (last_used b))"

definition SoftSkill_ext :: "SoftSkill \<Rightarrow> SoftSkill \<Rightarrow> bool" where
  "SoftSkill_ext a b =
     (ss_name a = ss_name b \<and> opt_ext (ss_proficiency a) (ss_proficiency b))"

definition LanguageSkill_ext :: "LanguageSkill \<Rightarrow> LanguageSkill \<Rightarrow> bool" where
  "LanguageSkill_ext a b =
     (language a = language b \<and> ls_proficiency a = ls_proficiency b
      \<and> opt_entries_ext (=) (ls_certifications a) (ls_certifications b))"

definition Skills_ext :: "Skills \<Rightarrow> Skills \<Rightarrow> bool" where
  "Skills_ext a b =
     (entries_ext TechnicalSkill_ext (technical a) (technical b)
      \<and> entries_ext SoftSkill_ext (soft a) (soft b)
      \<and> entries_ext LanguageSkill_ext (languages a) (languages b))"

definition Certification_ext :: "Certification \<Rightarrow> Certification \<Rightarrow> bool" where
  "Certification_ext a b =
     (cert_id a = cert_id b \<and> cert_name a = cert_name b \<and> issuer a = issuer b
      \<and> issue_date a = issue_date b \<and> opt_ext (expiration_date a) (expiration_date b)
      \<and> opt_ext (credential_id a) (credential_id b)
      \<and> opt_ext (credential_url a) (credential_url b))"

definition Project_ext :: "Project \<Rightarrow> Project \<Rightarrow> bool" where
  "Project_ext a b =
     (proj_id a = proj_id b \<and> proj_name a = proj_name b
      \<and> proj_description a = proj_description b
      \<and> opt_ext (url a) (url b) \<and> opt_ext (repo_url a) (repo_url b)
      \<and> opt_ext (proj_start_date a) (proj_start_date b)
      \<and> opt_ext (proj_end_date a) (proj_end_date b)
      \<and> entries_ext (=) (technologies a) (technologies b)
      \<and> entries_ext (=) (highlights a) (highlights b))"

definition Profile_ext :: "Profile \<Rightarrow> Profile \<Rightarrow> bool" where
  "Profile_ext p q =
     (PersonalInfo_ext (personal_info p) (personal_info q)
      \<and> entries_ext WorkExperience_ext (work_experience p) (work_experience q)
      \<and> entries_ext Education_ext (education p) (education q)
      \<and> Skills_ext (skills p) (skills q)
      \<and> opt_entries_ext Certification_ext (certifications p) (certifications q)
      \<and> opt_entries_ext Project_ext (projects p) (projects q))"

section \<open>The extraction chain (app/chains/cv\_extraction.py)\<close>

subsection \<open>Strings the source builds\<close>

text \<open>
  \<open>str(n)\<close> of an integer, for the f-strings of the log lines and error messages.
\<close>

fun str_nat :: "nat \<Rightarrow> ustr" where
  "str_nat n = (if n < 10 then [48 + n] else str_nat (n div 10) @ [48 + n mod 10])"

declare str_nat.simps [simp del]

definition str_int :: "int \<Rightarrow> ustr" where
  "str_int i = (if i < 0 then 45 # str_nat (nat (- i)) else str_nat (nat i))"

text \<open>
  \<open>str.isspace\<close> on one code point and \<open>str.strip()\<close>: the whitespace code points are
  those of CPython's Unicode database (the characters of bidirectional type WS, B or S
  and of category Zs).
\<close>

definition py_isspace :: "nat \<Rightarrow> bool" where
  "py_isspace c =
     ((9 \<le> c \<and> c \<le> 13) \<or> (28 \<le> c \<and> c \<le> 32) \<or> c = 133 \<or> c = 160 \<or> c = 5760
      \<or> (8192 \<le> c \<and> c \<le> 8202) \<or> c = 8232 \<or> c = 8233 \<or> c = 8239 \<or> c = 8287
      \<or> c = 12288)"

definition strip :: "ustr \<Rightarrow> ustr" where
  "strip s = rev (dropWhile py_isspace (rev (dropWhile py_isspace s)))"

subsection \<open>The chain as the loop sees it\<close>

text \<open>
  \<open>self.chain\<close> is \<open>prompt | llm | parser\<close>: an upstream call followed by the parse of
  its text into a \<open>Profile\<close>. One invocation either returns an object or raises. The
  loop distinguishes three classes of exception: \<open>OutputParserException\<close> (the parser
  rejected the response), any other subclass of \<open>Exception\<close> (the call failed), and
  what is not an \<open>Exception\<close> at all (\<open>KeyboardInterrupt\<close>, a cancellation), which no
  \<open>except\<close> clause of the loop catches. Each carries \<open>str(e)\<close>.
\<close>

datatype exn = OutputParserException ustr | OtherException ustr | NonException ustr

text \<open>
  What an invocation returns: a \<open>Profile\<close>, or an object of another type, of which the
  source only prints \<open>type(result)\<close>.
\<close>

datatype pyobject = ProfileObj Profile | OtherObj ustr

datatype invocation = Returns pyobject | Raises exn

text \<open>
  The upstream is outside the program and may answer differently each time, so the chain
  is a function of the text it is given and of the number of invocations made before
  this one.
\<close>

record CVExtractionChain =
  model_name :: ustr
  temperature :: real
  max_retries :: int
  chain :: "ustr \<Rightarrow> nat \<Rightarrow> invocation"

text \<open>
  The effects of an extraction: the invocations of the chain, counted, and the lines
  given to the logger, in order. The source has no other effect; in particular it does
  not sleep.
\<close>

datatype level = LogDebug | LogInfo | LogWarning | LogError

record world =
  invocations :: nat
  log :: "(level \<times> ustr) list"

definition logger :: "level \<Rightarrow> ustr \<Rightarrow> world \<Rightarrow> world" where
  "logger lv msg w = w \<lparr> log := log w @ [(lv, msg)] \<rparr>"

datatype error = ValueError ustr | Uncaught ustr

text \<open>
  The result of \<open>extract\<close>: an error raised, a \<open>Profile\<close> returned, or \<open>None\<close> when the
  function body ends without a \<open>return\<close>.
\<close>

type_synonym extraction = "(error + Profile option) \<times> world"

subsection \<open>The body of the \<open>try\<close>\<close>

text \<open>
  The chain is invoked; a result that is not a \<open>Profile\<close> raises a \<open>ValueError\<close> inside
  the \<open>try\<close>, which is an \<open>Exception\<close> and not an \<open>OutputParserException\<close>; a \<open>Profile\<close>
  is logged and returned.
\<close>

definition invoked :: "world \<Rightarrow> world" where
  "invoked w = w \<lparr> invocations := invocations w + 1 \<rparr>"

definition try_body :: "CVExtractionChain \<Rightarrow> ustr \<Rightarrow> world \<Rightarrow> (exn + Profile) \<times> world" where
  "try_body self cv_text w =
     (case chain self cv_text (invocations w) of
        Raises e \<Rightarrow> (Inl e, invoked w)
      | Returns (OtherObj ty) \<Rightarrow>
          (Inl (OtherException (lit ''Expected Profile object, got '' @ ty)), invoked w)
      | Returns (ProfileObj result) \<Rightarrow>
          (let w = invoked w;
               w = logger LogInfo (lit ''CV extraction successful'') w;
               w = logger LogDebug
                     (lit ''Extracted profile for: '' @ first_name (personal_info result)
                      @ lit '' '' @ last_name (personal_info result)) w
           in (Inr result, w)))"

subsection \<open>The retry loop\<close>

text \<open>
  \<open>for attempt in range(self.max_retries)\<close>, as a recursion over the list of attempt
  numbers. The loops of \<open>extract\<close> and \<open>extract_sync\<close> are the same text, but for
  \<open>await self.chain.ainvoke\<close> in place of \<open>self.chain.invoke\<close>.
\<close>

fun attempts :: "CVExtractionChain \<Rightarrow> ustr \<Rightarrow> nat list \<Rightarrow> world \<Rightarrow> extraction" where
  "attempts self cv_text [] w = (Inr None, w)"
| "attempts self cv_text (attempt # rest) w =
     (case try_body self cv_text w of
        (Inr result, w) \<Rightarrow> (Inr (Some result), w)
      | (Inl (OutputParserException e), w) \<Rightarrow>
          (let w = logger LogWarning
                     (lit ''Output parsing failed (attempt '' @ str_int (int attempt + 1)
                      @ lit ''/'' @ str_int (max_retries self) @ lit ''): '' @ e) w
           in if int attempt = max_retries self - 1
              then (Inl (ValueError (lit ''Failed to parse CV after ''
                      @ str_int (max_retries self) @ lit '' attempts: '' @ e)), w)
              else attempts self cv_text rest w)
      | (Inl (OtherException e), w) \<Rightarrow>
          (let w = logger LogError
                     (lit ''CV extraction failed (attempt '' @ str_int (int attempt + 1)
                      @ lit ''/'' @ str_int (max_retries self) @ lit ''): '' @ e) w
           in if int attempt = max_retries self - 1
              then (Inl (ValueError (lit ''CV extraction failed after ''
                      @ str_int (max_retries self) @ lit '' attempts: '' @ e)), w)
              else attempts self cv_text rest w)
      | (Inl (NonException e), w) \<Rightarrow> (Inl (Uncaught e), w))"

definition py_range :: "int \<Rightarrow> nat list" where
  "py_range n = [0..<nat n]"

definition "extract" :: "CVExtractionChain \<Rightarrow> ustr \<Rightarrow> world \<Rightarrow> extraction" where
  "extract self cv_text w =
     (if cv_text = [] \<or> strip cv_text = []
      then (Inl (ValueError (lit ''CV text cannot be empty'')), w)
      else
        (let w = logger LogInfo (lit ''Starting async CV extraction'') w;
             w = logger LogDebug
                   (lit ''CV text length: '' @ str_int (int (length cv_text))
                    @ lit '' characters'') w
         in attempts self cv_text (py_range (max_retries self)) w))"

definition extract_sync :: "CVExtractionChain \<Rightarrow> ustr \<Rightarrow> world \<Rightarrow> extraction" where
  "extract_sync self cv_text w =
     (if cv_text = [] \<or> strip cv_text = []
      then (Inl (ValueError (lit ''CV text cannot be empty'')), w)
      else
        (let w = logger LogInfo (lit ''Starting sync CV extraction'') w;
             w = logger LogDebug
                   (lit ''CV text length: '' @ str_int (int (length cv_text))
                    @ lit '' characters'') w
         in attempts self cv_text (py_range (max_retries self)) w))"

text \<open>
  How an invocation fails, for the loop: the exception the \<open>try\<close> body ends with.
\<close>

definition failure_of :: "invocation \<Rightarrow> exn option" where
  "failure_of r =
     (case r of
        Raises e \<Rightarrow> Some e
      | Returns (OtherObj ty) \<Rightarrow>
          Some (OtherException (lit ''Expected Profile object, got '' @ ty))
      | Returns (ProfileObj p) \<Rightarrow> None)"

text \<open>
  A schema-validation failure is an \<open>OutputParserException\<close>, a transport failure any
  other \<open>Exception\<close>: the two that an \<open>except\<close> clause of the loop catches.
\<close>

definition schema_failure :: "exn \<Rightarrow> bool" where
  "schema_failure e = (case e of OutputParserException m \<Rightarrow> True | _ \<Rightarrow> False)"

definition transport_failure :: "exn \<Rightarrow> bool" where
  "transport_failure e = (case e of OtherException m \<Rightarrow> True | _ \<Rightarrow> False)"

definition cause :: "exn \<Rightarrow> ustr" where
  "cause e = (case e of OutputParserException m \<Rightarrow> m | OtherException m \<Rightarrow> m
              | NonException m \<Rightarrow> m)"

definition fails_caught :: "invocation \<Rightarrow> bool" where
  "fails_caught r =
     (case failure_of r of None \<Rightarrow> False
      | Some e \<Rightarrow> schema_failure e \<or> transport_failure e)"

text \<open>The message of the terminal \<open>ValueError\<close>, by the clause that raises it.\<close>

definition terminal_message :: "exn \<Rightarrow> int \<Rightarrow> ustr" where
  "terminal_message e n =
     (case e of
        OutputParserException m \<Rightarrow>
          lit ''Failed to parse CV after '' @ str_int n @ lit '' attempts: '' @ m
      | OtherException m \<Rightarrow>
          lit ''CV extraction failed after '' @ str_int n @ lit '' attempts: '' @ m
      | NonException m \<Rightarrow> m)"

text \<open>The text is empty for the guard of \<open>extract\<close>: empty, or whitespace only.\<close>

definition blank :: "ustr \<Rightarrow> bool" where
  "blank cv_text = list_all py_isspace cv_text"

text \<open>A stub chain that fails every parse, and an empty world, for examples.\<close>

definition stub_always_fails :: CVExtractionChain where
  "stub_always_fails =
     \<lparr> model_name = lit ''claude-3-5-haiku-20241022'', temperature = 0, max_retries = 2,
       chain = (\<lambda>cv_text i. Raises (OutputParserException (lit ''bad'' @ str_nat i))) \<rparr>"

definition stub_demo :: CVExtractionChain where
  "stub_demo =
     \<lparr> model_name = lit ''claude-3-5-haiku-20241022'', temperature = 0, max_retries = 2,
       chain = (\<lambda>cv_text i. Returns (ProfileObj demo_profile)) \<rparr>"

definition world0 :: world where
  "world0 = \<lparr> invocations = 0, log = [] \<rparr>"

section \<open>The job-matching endpoint (app/routers/jobs.py, app/models/job.py)\<close>

record SkillMatch =
  skill :: ustr
  matched :: bool
  proficiency_required :: "ustr option"
  user_proficiency :: "ustr option"
  gap :: "ustr option"

record MatchResult =
  job_id :: ustr
  score :: real
  reasoning :: ustr
  strengths :: "ustr list"
  gaps :: "ustr list"
  recommendation :: ustr
  skill_matches :: "SkillMatch list"
  education_match :: "ustr option"
  experience_match :: "ustr option"

record JobMatchRequest =
  profile_id :: ustr
  job_ids :: "ustr list option"
  min_score :: "real option"

record JobMatchResponse =
  matches :: "MatchResult list"
  total_jobs :: int
  matched_jobs :: int

datatype validation_error = ValidationError "ustr list"

text \<open>
  Constructing a \<open>MatchResult\<close> checks the bounds declared on \<open>score\<close>
  (\<open>ge=0, le=100\<close>); the other arguments of the call in \<open>match_jobs\<close> have their
  declared types.
\<close>

definition new_MatchResult :: "MatchResult \<Rightarrow> validation_error + MatchResult" where
  "new_MatchResult m =
     (if 0 \<le> score m \<and> score m \<le> 100 then Inr m else Inl (ValidationError [lit ''score'']))"

definition mock_match_fields :: MatchResult where
  "mock_match_fields =
     \<lparr> job_id = lit ''job_mock_123'',
       score = 87.5,
       reasoning = lit ''Strong match based on ML expertise and ETH education. PyTorch skills align perfectly with requirements.'',
       strengths = [ lit ''ETH Zurich MSc matches education requirements'',
                     lit ''Expert-level PyTorch experience'',
                     lit ''5+ years Python experience exceeds requirements'' ],
       gaps = [ lit ''No AWS deployment experience mentioned'',
                lit ''Preferred: 2+ years in production ML systems'' ],
       recommendation = lit ''Highly Recommended'',
       skill_matches = [],
       education_match = Some (lit ''Perfect match: ETH Zurich MSc in Computer Science''),
       experience_match = Some (lit ''Meets requirements: 5+ years of ML/AI experience'') \<rparr>"

definition match_jobs :: "JobMatchRequest \<Rightarrow> validation_error + JobMatchResponse" where
  "match_jobs request =
     (case new_MatchResult mock_match_fields of
        Inl e \<Rightarrow> Inl e
      | Inr mock_match \<Rightarrow>
          Inr \<lparr> matches = [mock_match], total_jobs = 1, matched_jobs = 1 \<rparr>)"

text \<open>Two requests that differ in every field, for examples.\<close>

definition request_a :: JobMatchRequest where
  "request_a = \<lparr> profile_id = lit ''user_1234567890'',
                 job_ids = Some [lit ''job_001'', lit ''job_002'', lit ''job_003''],
                 min_score = Some 70 \<rparr>"

definition request_b :: JobMatchRequest where
  "request_b = \<lparr> profile_id = [], job_ids = None, min_score = Some 100 \<rparr>"

text \<open>The world after an attempt that failed with \<open>e\<close>: one invocation, one log line.\<close>

definition after_failure :: "exn \<Rightarrow> nat \<Rightarrow> int \<Rightarrow> world \<Rightarrow> world" where
  "after_failure e attempt n w =
     (case e of
        OutputParserException m \<Rightarrow>
          logger LogWarning
            (lit ''Output parsing failed (attempt '' @ str_int (int attempt + 1)
             @ lit ''/'' @ str_int n @ lit ''): '' @ m) (invoked w)
      | OtherException m \<Rightarrow>
          logger LogError
            (lit ''CV extraction failed (attempt '' @ str_int (int attempt + 1)
             @ lit ''/'' @ str_int n @ lit ''): '' @ m) (invoked w)
      | NonException m \<Rightarrow> invoked w)"

text \<open>The world after an attempt that returned the profile \<open>result\<close>.\<close>

definition after_success :: "Profile \<Rightarrow> world \<Rightarrow> world" where
  "after_success result w =
     logger LogDebug
       (lit ''Extracted profile for: '' @ first_name (personal_info result)
        @ lit '' '' @ last_name (personal_info result))
       (logger LogInfo (lit ''CV extraction successful'') (invoked w))"

section \<open>Validation of a response against the declared models\<close>

text \<open>
  \<open>PydanticOutputParser\<close> reads the text of the response as JSON and validates the value
  against the declarations of \<open>app/models/profile.py\<close>. The validation is the library's;
  what the repository contributes is the declarations: which fields a model has, under
  which names (the alias, and the field name where the model sets
  \<open>populate_by_name\<close>), which are required, their types, bounds and defaults, and the
  field validator \<open>sort_by_date\<close>. The model below follows these declarations. The
  validators of the models take the validators of the leaf types \<open>str\<close>, \<open>bool\<close>,
  \<open>float\<close> and \<open>EmailStr\<close> as a parameter \<open>L\<close>; \<open>lax_leaves\<close> below is what the library
  does in its default mode, which the source uses. A validation that fails is \<open>None\<close>.
\<close>

datatype json = JNull | JBool bool | JNum real | JStr ustr | JArr "json list"
  | JObj "(ustr \<times> json) list"

record leaves =
  as_str :: "json \<Rightarrow> ustr option"
  as_bool :: "json \<Rightarrow> bool option"
  as_float :: "json \<Rightarrow> real option"
  as_email :: "json \<Rightarrow> ustr option"

text \<open>
  An object is the list of its members in the order of the text. \<open>json.loads\<close> makes a
  dictionary of it, in which the last member of a repeated key stands. The value of a
  field is the value under the first of its names that the dictionary has.
\<close>

definition member :: "(ustr \<times> json) list \<Rightarrow> ustr \<Rightarrow> json option" where
  "member kv n = map_of (rev kv) n"

fun lookup :: "(ustr \<times> json) list \<Rightarrow> ustr list \<Rightarrow> json option" where
  "lookup kv [] = None"
| "lookup kv (n # ns) = (case member kv n of Some v \<Rightarrow> Some v | None \<Rightarrow> lookup kv ns)"

text \<open>
  A required field (\<open>Field(...)\<close> or no default), a field with a default, and an
  \<open>Optional\<close> field with default \<open>None\<close>, which also accepts \<open>null\<close>.
\<close>

definition required ::
  "(json \<Rightarrow> 'a option) \<Rightarrow> (ustr \<times> json) list \<Rightarrow> ustr list \<Rightarrow> 'a option" where
  "required val kv names = (case lookup kv names of None \<Rightarrow> None | Some v \<Rightarrow> val v)"

definition with_default ::
  "'a \<Rightarrow> (json \<Rightarrow> 'a option) \<Rightarrow> (ustr \<times> json) list \<Rightarrow> ustr list \<Rightarrow> 'a option" where
  "with_default d val kv names = (case lookup kv names of None \<Rightarrow> Some d | Some v \<Rightarrow> val v)"

definition nullable :: "(json \<Rightarrow> 'a option) \<Rightarrow> json \<Rightarrow> 'a option option" where
  "nullable val v = (if v = JNull then Some None else map_option Some (val v))"

definition optional ::
  "(json \<Rightarrow> 'a option) \<Rightarrow> (ustr \<times> json) list \<Rightarrow> ustr list \<Rightarrow> 'a option option" where
  "optional val kv names = with_default None (nullable val) kv names"

definition list_of :: "(json \<Rightarrow> 'a option) \<Rightarrow> json \<Rightarrow> 'a list option" where
  "list_of val v = (case v of JArr xs \<Rightarrow> those (map val xs) | _ \<Rightarrow> None)"

text \<open>A \<open>str\<close> with \<open>min_length\<close>, a \<open>float\<close> with \<open>ge\<close> and \<open>le\<close>, a \<open>str\<close>-valued enum.\<close>

definition str_min :: "leaves \<Rightarrow> nat \<Rightarrow> json \<Rightarrow> ustr option" where
  "str_min L n v =
     (case as_str L v of None \<Rightarrow> None | Some s \<Rightarrow> if n \<le> length s then Some s else None)"

definition float_in :: "leaves \<Rightarrow> real option \<Rightarrow> real option \<Rightarrow> json \<Rightarrow> real option" where
  "float_in L ge le v =
     (case as_float L v of
        None \<Rightarrow> None
      | Some x \<Rightarrow>
          if (case ge of None \<Rightarrow> True | Some l \<Rightarrow> l \<le> x)
             \<and> (case le of None \<Rightarrow> True | Some h \<Rightarrow> x \<le> h)
          then Some x else None)"

definition enum_of :: "(ustr \<times> 'a) list \<Rightarrow> json \<Rightarrow> 'a option" where
  "enum_of values v = (case v of JStr s \<Rightarrow> map_of values s | _ \<Rightarrow> None)"

definition DegreeType_values :: "(ustr \<times> DegreeType) list" where
  "DegreeType_values =
     [ (lit ''high-school'', HIGH_SCHOOL), (lit ''associate'', ASSOCIATE),
       (lit ''bachelor'', BACHELOR), (lit ''master'', MASTER), (lit ''doctorate'', DOCTORATE),
       (lit ''professional'', PROFESSIONAL), (lit ''certificate'', CERTIFICATE),
       (lit ''bootcamp'', BOOTCAMP) ]"

definition SkillCategory_values :: "(ustr \<times> SkillCategory) list" where
  "SkillCategory_values =
     [ (lit ''language'', LANGUAGE), (lit ''framework'', FRAMEWORK),
       (lit ''database'', DATABASE), (lit ''cloud'', CLOUD), (lit ''devops'', DEVOPS),
       (lit ''tool'', TOOL), (lit ''other'', OTHER) ]"

definition SkillProficiency_values :: "(ustr \<times> SkillProficiency) list" where
  "SkillProficiency_values =
     [ (lit ''beginner'', BEGINNER), (lit ''intermediate'', INTERMEDIATE),
       (lit ''advanced'', ADVANCED), (lit ''expert'', EXPERT) ]"

definition EmploymentType_values :: "(ustr \<times> EmploymentType) list" where
  "EmploymentType_values =
     [ (lit ''full-time'', FULL_TIME), (lit ''part-time'', PART_TIME),
       (lit ''contract'', CONTRACT), (lit ''freelance'', FREELANCE),
       (lit ''internship'', INTERNSHIP) ]"

definition RemoteType_values :: "(ustr \<times> RemoteType) list" where
  "RemoteType_values =
     [ (lit ''remote'', REMOTE), (lit ''hybrid'', HYBRID), (lit ''on-site'', ON_SITE) ]"

definition CompanySize_values :: "(ustr \<times> CompanySize) list" where
  "CompanySize_values =
     [ (lit ''startup'', STARTUP), (lit ''small'', SMALL), (lit ''medium'', MEDIUM),
       (lit ''large'', LARGE), (lit ''enterprise'', ENTERPRISE) ]"

definition LanguageProficiency_values :: "(ustr \<times> LanguageProficiency) list" where
  "LanguageProficiency_values =
     [ (lit ''elementary'', ELEMENTARY), (lit ''limited-working'', LIMITED_WORKING),
       (lit ''professional-working'', PROFESSIONAL_WORKING),
       (lit ''full-professional'', FULL_PROFESSIONAL), (lit ''native'', NATIVE) ]"

subsection \<open>The leaf types in the library's default mode\<close>

text \<open>
  In its default (lax) mode the library takes for a \<open>str\<close> a string only (a number is
  not made a string); for a \<open>bool\<close> a boolean, the numbers 0 and 1, and the strings
  \<open>0\<close>, \<open>off\<close>, \<open>f\<close>, \<open>false\<close>, \<open>n\<close>, \<open>no\<close> and \<open>1\<close>, \<open>on\<close>, \<open>t\<close>, \<open>true\<close>, \<open>y\<close>, \<open>yes\<close>,
  whatever the case of their ASCII letters; for a \<open>float\<close> a number, a boolean (as 0 or
  1) and a string that it reads as a number; for an \<open>EmailStr\<close> a string that the email
  validator accepts, in its normalised form. Which strings are read as numbers and which
  as email addresses is the libraries' own syntax; it is the parameter \<open>C\<close>.
\<close>

record coercions =
  float_of_str :: "ustr \<Rightarrow> real option"
  email_of_str :: "ustr \<Rightarrow> ustr option"

definition ascii_lower :: "ustr \<Rightarrow> ustr" where
  "ascii_lower s = map (\<lambda>c. if 65 \<le> c \<and> c \<le> 90 then c + 32 else c) s"

definition false_words :: "ustr list" where
  "false_words = [lit ''0'', lit ''off'', lit ''f'', lit ''false'', lit ''n'', lit ''no'']"

definition true_words :: "ustr list" where
  "true_words = [lit ''1'', lit ''on'', lit ''t'', lit ''true'', lit ''y'', lit ''yes'']"

definition bool_of_str :: "ustr \<Rightarrow> bool option" where
  "bool_of_str s =
     (if ascii_lower s \<in> set false_words then Some False
      else if ascii_lower s \<in> set true_words then Some True
      else None)"

definition bool_of_num :: "real \<Rightarrow> bool option" where
  "bool_of_num x = (if x = 0 then Some False else if x = 1 then Some True else None)"

definition lax_leaves :: "coercions \<Rightarrow> leaves" where
  "lax_leaves C =
     \<lparr> as_str = (\<lambda>v. case v of JStr s \<Rightarrow> Some s | _ \<Rightarrow> None),
       as_bool = (\<lambda>v. case v of JBool b \<Rightarrow> Some b | JNum x \<Rightarrow> bool_of_num x
                        | JStr s \<Rightarrow> bool_of_str s | _ \<Rightarrow> None),
       as_float = (\<lambda>v. case v of JNum x \<Rightarrow> Some x | JBool b \<Rightarrow> Some (if b then 1 else 0)
                         | JStr s \<Rightarrow> float_of_str C s | _ \<Rightarrow> None),
       as_email = (\<lambda>v. case v of JStr s \<Rightarrow> email_of_str C s | _ \<Rightarrow> None) \<rparr>"

subsection \<open>The declarations as a schema\<close>

text \<open>
  The same declarations read as a description of the JSON values a model accepts: a
  model is the list of its fields, each with its names, whether it is required, and its
  type. \<open>conforms\<close> says that a value has every required field and that every field it
  has holds a value of its declared type, or one that the default mode takes for it.
\<close>

datatype ty = TStr nat | TEmail | TBool | TFloat "real option" "real option"
  | TEnum "ustr list" | TList ty | TOpt ty | TModel "(ustr list \<times> bool \<times> ty) list"

definition in_bounds :: "real option \<Rightarrow> real option \<Rightarrow> real \<Rightarrow> bool" where
  "in_bounds ge le x =
     ((case ge of None \<Rightarrow> True | Some l \<Rightarrow> l \<le> x) \<and> (case le of None \<Rightarrow> True | Some h \<Rightarrow> x \<le> h))"

fun conforms :: "coercions \<Rightarrow> ty \<Rightarrow> json \<Rightarrow> bool" where
  "conforms C (TStr n) v = (case v of JStr s \<Rightarrow> n \<le> length s | _ \<Rightarrow> False)"
| "conforms C TEmail v = (case v of JStr s \<Rightarrow> email_of_str C s \<noteq> None | _ \<Rightarrow> False)"
| "conforms C TBool v =
     (case v of
        JBool b \<Rightarrow> True
      | JNum x \<Rightarrow> x = 0 \<or> x = 1
      | JStr s \<Rightarrow> ascii_lower s \<in> set (false_words @ true_words)
      | _ \<Rightarrow> False)"
| "conforms C (TFloat ge le) v =
     (case v of
        JNum x \<Rightarrow> in_bounds ge le x
      | JBool b \<Rightarrow> in_bounds ge le (if b then 1 else 0)
      | JStr s \<Rightarrow> (case float_of_str C s of Some x \<Rightarrow> in_bounds ge le x | None \<Rightarrow> False)
      | _ \<Rightarrow> False)"
| "conforms C (TEnum vals) v = (case v of JStr s \<Rightarrow> s \<in> set vals | _ \<Rightarrow> False)"
| "conforms C (TList t) v = (case v of JArr xs \<Rightarrow> list_all (conforms C t) xs | _ \<Rightarrow> False)"
| "conforms C (TOpt t) v = (v = JNull \<or> conforms C t v)"
| "conforms C (TModel fs) v =
     (case v of
        JObj kv \<Rightarrow>
          list_all (\<lambda>f. case lookup kv (fst f) of
                           None \<Rightarrow> \<not> fst (snd f)
                         | Some x \<Rightarrow> conforms C (snd (snd f)) x) fs
      | _ \<Rightarrow> False)"

subsection \<open>The models\<close>

definition validate_Location :: "leaves \<Rightarrow> json \<Rightarrow> Location option" where
  "validate_Location L v =
     (case v of
        JObj kv \<Rightarrow>
          do {
            city' \<leftarrow> optional (str_min L 0) kv [lit ''city''];
            state' \<leftarrow> optional (str_min L 0) kv [lit ''state''];
            country' \<leftarrow> required (str_min L 0) kv [lit ''country''];
            postal_code' \<leftarrow>
              optional (str_min L 0) kv [lit ''postalCode'', lit ''postal_code''];
            willing_to_relocate' \<leftarrow>
              with_default False (as_bool L) kv [lit ''willingToRelocate'', lit ''willing_to_relocate''];
            relocation_preferences' \<leftarrow>
              optional (list_of (str_min L 0)) kv [lit ''relocationPreferences'', lit ''relocation_preferences''];
            Some \<lparr> city = city', state = state', country = country',
                   postal_code = postal_code', willing_to_relocate = willing_to_relocate',
                   relocation_preferences = relocation_preferences' \<rparr>
          }
      | _ \<Rightarrow> None)"

definition Location_schema :: ty where
  "Location_schema = TModel
     [ ([lit ''city''], False, (TOpt (TStr 0))),
       ([lit ''state''], False, (TOpt (TStr 0))),
       ([lit ''country''], True, (TStr 0)),
       ([lit ''postalCode'', lit ''postal_code''], False, (TOpt (TStr 0))),
       ([lit ''willingToRelocate'', lit ''willing_to_relocate''], False, TBool),
       ([lit ''relocationPreferences'', lit ''relocation_preferences''], False, (TOpt (TList (TStr 0)))) ]"

definition validate_PersonalInfo :: "leaves \<Rightarrow> json \<Rightarrow> PersonalInfo option" where
  "validate_PersonalInfo L v =
     (case v of
        JObj kv \<Rightarrow>
          do {
            first_name' \<leftarrow>
              required (str_min L 1) kv [lit ''firstName'', lit ''first_name''];
            last_name' \<leftarrow>
              required (str_min L 1) kv [lit ''lastName'', lit ''last_name''];
            email' \<leftarrow> required (as_email L) kv [lit ''email''];
            phone' \<leftarrow> optional (str_min L 0) kv [lit ''phone''];
            location' \<leftarrow> required (validate_Location L) kv [lit ''location''];
            linkedin' \<leftarrow> optional (str_min L 0) kv [lit ''linkedIn'', lit ''linkedin''];
            github' \<leftarrow> optional (str_min L 0) kv [lit ''github''];
            portfolio' \<leftarrow> optional (str_min L 0) kv [lit ''portfolio''];
            summary' \<leftarrow> optional (str_min L 0) kv [lit ''summary''];
            Some \<lparr> first_name = first_name', last_name = last_name', email = email',
                   phone = phone', location = location', linkedin = linkedin',
                   github = github', portfolio = portfolio', summary = summary' \<rparr>
          }
      | _ \<Rightarrow> None)"

definition PersonalInfo_schema :: ty where
  "PersonalInfo_schema = TModel
     [ ([lit ''firstName'', lit ''first_name''], True, (TStr 1)),
       ([lit ''lastName'', lit ''last_name''], True, (TStr 1)),
       ([lit ''email''], True, TEmail),
       ([lit ''phone''], False, (TOpt (TStr 0))),
       ([lit ''location''], True, Location_schema),
       ([lit ''linkedIn'', lit ''linkedin''], False, (TOpt (TStr 0))),
       ([lit ''github''], False, (TOpt (TStr 0))),
       ([lit ''portfolio''], False, (TOpt (TStr 0))),
       ([lit ''summary''], False, (TOpt (TStr 0))) ]"

definition validate_Achievement :: "leaves \<Rightarrow> json \<Rightarrow> Achievement option" where
  "validate_Achievement L v =
     (case v of
        JObj kv \<Rightarrow>
          do {
            ach_description' \<leftarrow> required (str_min L 0) kv [lit ''description''];
            metric' \<leftarrow> optional (str_min L 0) kv [lit ''metric''];
            Some \<lparr> ach_description = ach_description', metric = metric' \<rparr>
          }
      | _ \<Rightarrow> None)"

definition Achievement_schema :: ty where
  "Achievement_schema = TModel
     [ ([lit ''description''], True, (TStr 0)),
       ([lit ''metric''], False, (TOpt (TStr 0))) ]"

definition validate_WorkExperience :: "leaves \<Rightarrow> json \<Rightarrow> WorkExperience option" where
  "validate_WorkExperience L v =
     (case v of
        JObj kv \<Rightarrow>
          do {
            we_id' \<leftarrow> required (str_min L 0) kv [lit ''id''];
            title' \<leftarrow> required (str_min L 0) kv [lit ''title''];
            company' \<leftarrow> required (str_min L 0) kv [lit ''company''];
            company_size' \<leftarrow>
              optional (enum_of CompanySize_values) kv [lit ''companySize'', lit ''company_size''];
            industry' \<leftarrow> optional (str_min L 0) kv [lit ''industry''];
            we_location' \<leftarrow> optional (str_min L 0) kv [lit ''location''];
            remote' \<leftarrow> optional (enum_of RemoteType_values) kv [lit ''remote''];
            we_start_date' \<leftarrow>
              required (str_min L 0) kv [lit ''startDate'', lit ''start_date''];
            we_end_date' \<leftarrow>
              optional (str_min L 0) kv [lit ''endDate'', lit ''end_date''];
            is_current' \<leftarrow>
              with_default False (as_bool L) kv [lit ''isCurrent'', lit ''is_current''];
            responsibilities' \<leftarrow>
              with_default [] (list_of (str_min L 0)) kv [lit ''responsibilities''];
            achievements' \<leftarrow>
              with_default [] (list_of (validate_Achievement L)) kv [lit ''achievements''];
            skills_used' \<leftarrow>
              with_default [] (list_of (str_min L 0)) kv [lit ''skillsUsed'', lit ''skills_used''];
            employment_type' \<leftarrow>
              with_default FULL_TIME (enum_of EmploymentType_values) kv [lit ''employmentType'', lit ''employment_type''];
            Some \<lparr> we_id = we_id', title = title', company = company',
                   company_size = company_size', industry = industry',
                   we_location = we_location', remote = remote',
                   we_start_date = we_start_date', we_end_date = we_end_date',
                   is_current = is_current', responsibilities = responsibilities',
                   achievements = achievements', skills_used = skills_used',
                   employment_type = employment_type' \<rparr>
          }
      | _ \<Rightarrow> None)"

definition WorkExperience_schema :: ty where
  "WorkExperience_schema = TModel
     [ ([lit ''id''], True, (TStr 0)),
       ([lit ''title''], True, (TStr 0)),
       ([lit ''company''], True, (TStr 0)),
       ([lit ''companySize'', lit ''company_size''], False, (TOpt (TEnum (map fst CompanySize_values)))),
       ([lit ''industry''], False, (TOpt (TStr 0))),
       ([lit ''location''], False, (TOpt (TStr 0))),
       ([lit ''remote''], False, (TOpt (TEnum (map fst RemoteType_values)))),
       ([lit ''startDate'', lit ''start_date''], True, (TStr 0)),
       ([lit ''endDate'', lit ''end_date''], False, (TOpt (TStr 0))),
       ([lit ''isCurrent'', lit ''is_current''], False, TBool),
       ([lit ''responsibilities''], False, (TList (TStr 0))),
       ([lit ''achievements''], False, (TList Achievement_schema)),
       ([lit ''skillsUsed'', lit ''skills_used''], False, (TList (TStr 0))),
       ([lit ''employmentType'', lit ''employment_type''], False, (TEnum (map fst EmploymentType_values))) ]"

definition validate_Education :: "leaves \<Rightarrow> json \<Rightarrow> Education option" where
  "validate_Education L v =
     (case v of
        JObj kv \<Rightarrow>
          do {
            edu_id' \<leftarrow> required (str_min L 0) kv [lit ''id''];
            institution' \<leftarrow> required (str_min L 0) kv [lit ''institution''];
            degree' \<leftarrow> required (enum_of DegreeType_values) kv [lit ''degree''];
            field' \<leftarrow> required (str_min L 0) kv [lit ''field''];
            edu_start_date' \<leftarrow>
              optional (str_min L 0) kv [lit ''startDate'', lit ''start_date''];
            graduation_date' \<leftarrow>
              optional (str_min L 0) kv [lit ''graduationDate'', lit ''graduation_date''];
            gpa' \<leftarrow> optional (float_in L (Some 0) (Some 10)) kv [lit ''gpa''];
            honors' \<leftarrow> optional (str_min L 0) kv [lit ''honors''];
            relevant_coursework' \<leftarrow>
              optional (list_of (str_min L 0)) kv [lit ''relevantCoursework'', lit ''relevant_coursework''];
            activities' \<leftarrow> optional (list_of (str_min L 0)) kv [lit ''activities''];
            Some \<lparr> edu_id = edu_id', institution = institution', degree = degree',
                   field = field', edu_start_date = edu_start_date',
                   graduation_date = graduation_date', gpa = gpa', honors = honors',
                   relevant_coursework = relevant_coursework', activities = activities' \<rparr>
          }
      | _ \<Rightarrow> None)"

definition Education_schema :: ty where
  "Education_schema = TModel
     [ ([lit ''id''], True, (TStr 0)),
       ([lit ''institution''], True, (TStr 0)),
       ([lit ''degree''], True, (TEnum (map fst DegreeType_values))),
       ([lit ''field''], True, (TStr 0)),
       ([lit ''startDate'', lit ''start_date''], False, (TOpt (TStr 0))),
       ([lit ''graduationDate'', lit ''graduation_date''], False, (TOpt (TStr 0))),
       ([lit ''gpa''], False, (TOpt (TFloat (Some 0) (Some 10)))),
       ([lit ''honors''], False, (TOpt (TStr 0))),
       ([lit ''relevantCoursework'', lit ''relevant_coursework''], False, (TOpt (TList (TStr 0)))),
       ([lit ''activities''], False, (TOpt (TList (TStr 0)))) ]"

definition validate_TechnicalSkill :: "leaves \<Rightarrow> json \<Rightarrow> TechnicalSkill option" where
  "validate_TechnicalSkill L v =
     (case v of
        JObj kv \<Rightarrow>
          do {
            ts_name' \<leftarrow> required (str_min L 0) kv [lit ''name''];
            category' \<leftarrow> required (enum_of SkillCategory_values) kv [lit ''category''];
            ts_proficiency' \<leftarrow>
              required (enum_of SkillProficiency_values) kv [lit ''proficiency''];
            years_of_experience' \<leftarrow>
              optional (float_in L None None) kv [lit ''yearsOfExperience'', lit ''years_of_experience''];
            last_used' \<leftarrow>
              optional (str_min L 0) kv [lit ''lastUsed'', lit ''last_used''];
            Some \<lparr> ts_name = ts_name', category = category',
                   ts_proficiency = ts_proficiency',
                   years_of_experience = years_of_experience', last_used = last_used' \<rparr>
          }
      | _ \<Rightarrow> None)"

definition TechnicalSkill_schema :: ty where
  "TechnicalSkill_schema = TModel
     [ ([lit ''name''], True, (TStr 0)),
       ([lit ''category''], True, (TEnum (map fst SkillCategory_values))),
       ([lit ''proficiency''], True, (TEnum (map fst SkillProficiency_values))),
       ([lit ''yearsOfExperience'', lit ''years_of_experience''], False, (TOpt (TFloat None None))),
       ([lit ''lastUsed'', lit ''last_used''], False, (TOpt (TStr 0))) ]"

definition validate_SoftSkill :: "leaves \<Rightarrow> json \<Rightarrow> SoftSkill option" where
  "validate_SoftSkill L v =
     (case v of
        JObj kv \<Rightarrow>
          do {
            ss_name' \<leftarrow> required (str_min L 0) kv [lit ''name''];
            ss_proficiency' \<leftarrow>
              optional (enum_of SkillProficiency_values) kv [lit ''proficiency''];
            Some \<lparr> ss_name = ss_name', ss_proficiency = ss_proficiency' \<rparr>
          }
      | _ \<Rightarrow> None)"

definition SoftSkill_schema :: ty where
  "SoftSkill_schema = TModel
     [ ([lit ''name''], True, (TStr 0)),
       ([lit ''proficiency''], False, (TOpt (TEnum (map fst SkillProficiency_values)))) ]"

definition validate_LanguageSkill :: "leaves \<Rightarrow> json \<Rightarrow> LanguageSkill option" where
  "validate_LanguageSkill L v =
     (case v of
        JObj kv \<Rightarrow>
          do {
            language' \<leftarrow> required (str_min L 0) kv [lit ''language''];
            ls_proficiency' \<leftarrow>
              required (enum_of LanguageProficiency_values) kv [lit ''proficiency''];
            ls_certifications' \<leftarrow>
              optional (list_of (str_min L 0)) kv [lit ''certifications''];
            Some \<lparr> language = language', ls_proficiency = ls_proficiency',
                   ls_certifications = ls_certifications' \<rparr>
          }
      | _ \<Rightarrow> None)"

definition LanguageSkill_schema :: ty where
  "LanguageSkill_schema = TModel
     [ ([lit ''language''], True, (TStr 0)),
       ([lit ''proficiency''], True, (TEnum (map fst LanguageProficiency_values))),
       ([lit ''certifications''], False, (TOpt (TList (TStr 0)))) ]"

definition validate_Skills :: "leaves \<Rightarrow> json \<Rightarrow> Skills option" where
  "validate_Skills L v =
     (case v of
        JObj kv \<Rightarrow>
          do {
            technical' \<leftarrow>
              with_default [] (list_of (validate_TechnicalSkill L)) kv [lit ''technical''];
            soft' \<leftarrow> with_default [] (list_of (validate_SoftSkill L)) kv [lit ''soft''];
            languages' \<leftarrow>
              with_default [] (list_of (validate_LanguageSkill L)) kv [lit ''languages''];
            Some \<lparr> technical = technical', soft = soft', languages = languages' \<rparr>
          }
      | _ \<Rightarrow> None)"

definition Skills_schema :: ty where
  "Skills_schema = TModel
     [ ([lit ''technical''], False, (TList TechnicalSkill_schema)),
       ([lit ''soft''], False, (TList SoftSkill_schema)),
       ([lit ''languages''], False, (TList LanguageSkill_schema)) ]"

definition validate_Certification :: "leaves \<Rightarrow> json \<Rightarrow> Certification option" where
  "validate_Certification L v =
     (case v of
        JObj kv \<Rightarrow>
          do {
            cert_id' \<leftarrow> required (str_min L 0) kv [lit ''id''];
            cert_name' \<leftarrow> required (str_min L 0) kv [lit ''name''];
            issuer' \<leftarrow> required (str_min L 0) kv [lit ''issuer''];
            issue_date' \<leftarrow>
              required (str_min L 0) kv [lit ''issueDate'', lit ''issue_date''];
            expiration_date' \<leftarrow>
              optional (str_min L 0) kv [lit ''expirationDate'', lit ''expiration_date''];
            credential_id' \<leftarrow>
              optional (str_min L 0) kv [lit ''credentialId'', lit ''credential_id''];
            credential_url' \<leftarrow>
              optional (str_min L 0) kv [lit ''credentialUrl'', lit ''credential_url''];
            Some \<lparr> cert_id = cert_id', cert_name = cert_name', issuer = issuer',
                   issue_date = issue_date', expiration_date = expiration_date',
                   credential_id = credential_id', credential_url = credential_url' \<rparr>
          }
      | _ \<Rightarrow> None)"

definition Certification_schema :: ty where
  "Certification_schema = TModel
     [ ([lit ''id''], True, (TStr 0)),
       ([lit ''name''], True, (TStr 0)),
       ([lit ''issuer''], True, (TStr 0)),
       ([lit ''issueDate'', lit ''issue_date''], True, (TStr 0)),
       ([lit ''expirationDate'', lit ''expiration_date''], False, (TOpt (TStr 0))),
       ([lit ''credentialId'', lit ''credential_id''], False, (TOpt (TStr 0))),
       ([lit ''credentialUrl'', lit ''credential_url''], False, (TOpt (TStr 0))) ]"

definition validate_Project :: "leaves \<Rightarrow> json \<Rightarrow> Project option" where
  "validate_Project L v =
     (case v of
        JObj kv \<Rightarrow>
          do {
            proj_id' \<leftarrow> required (str_min L 0) kv [lit ''id''];
            proj_name' \<leftarrow> required (str_min L 0) kv [lit ''name''];
            proj_description' \<leftarrow> required (str_min L 0) kv [lit ''description''];
            url' \<leftarrow> optional (str_min L 0) kv [lit ''url''];
            repo_url' \<leftarrow> optional (str_min L 0) kv [lit ''repoUrl'', lit ''repo_url''];
            proj_start_date' \<leftarrow>
              optional (str_min L 0) kv [lit ''startDate'', lit ''start_date''];
            proj_end_date' \<leftarrow>
              optional (str_min L 0) kv [lit ''endDate'', lit ''end_date''];
            technologies' \<leftarrow>
              with_default [] (list_of (str_min L 0)) kv [lit ''technologies''];
            highlights' \<leftarrow>
              with_default [] (list_of (str_min L 0)) kv [lit ''highlights''];
            Some \<lparr> proj_id = proj_id', proj_name = proj_name',
                   proj_description = proj_description', url = url', repo_url = repo_url',
                   proj_start_date = proj_start_date', proj_end_date = proj_end_date',
                   technologies = technologies', highlights = highlights' \<rparr>
          }
      | _ \<Rightarrow> None)"

definition Project_schema :: ty where
  "Project_schema = TModel
     [ ([lit ''id''], True, (TStr 0)),
       ([lit ''name''], True, (TStr 0)),
       ([lit ''description''], True, (TStr 0)),
       ([lit ''url''], False, (TOpt (TStr 0))),
       ([lit ''repoUrl'', lit ''repo_url''], False, (TOpt (TStr 0))),
       ([lit ''startDate'', lit ''start_date''], False, (TOpt (TStr 0))),
       ([lit ''endDate'', lit ''end_date''], False, (TOpt (TStr 0))),
       ([lit ''technologies''], False, (TList (TStr 0))),
       ([lit ''highlights''], False, (TList (TStr 0))) ]"

subsection \<open>The field validator \<open>sort_by_date\<close> and the \<open>Profile\<close>\<close>

text \<open>
  \<open>x.start_date or ''\<close>, and \<open>sorted(v, key=..., reverse=True)\<close>: a stable sort, which
  with \<open>reverse=True\<close> keeps entries of equal key in their order, as sorting the
  reversed list and reversing the result does.
\<close>

definition or_empty :: "ustr option \<Rightarrow> ustr" where
  "or_empty x = (case x of None \<Rightarrow> [] | Some s \<Rightarrow> s)"

definition py_sorted_reverse :: "('a \<Rightarrow> ustr) \<Rightarrow> 'a list \<Rightarrow> 'a list" where
  "py_sorted_reverse key v = rev (sort_key key (rev v))"

text \<open>
  An attribute of an object, for \<open>hasattr\<close> and for the key: \<open>None\<close> when the class has
  no such attribute (reading it raises \<open>AttributeError\<close>), else its value, itself \<open>None\<close>
  or a string. Every field a model declares is an attribute of its instances.
\<close>

definition hasattr :: "('a \<Rightarrow> ustr option option) \<Rightarrow> 'a \<Rightarrow> bool" where
  "hasattr attr x = (attr x \<noteq> None)"

definition WorkExperience_start_date :: "WorkExperience \<Rightarrow> ustr option option" where
  "WorkExperience_start_date x = Some (Some (we_start_date x))"

definition WorkExperience_graduation_date :: "WorkExperience \<Rightarrow> ustr option option" where
  "WorkExperience_graduation_date x = None"

definition Education_start_date :: "Education \<Rightarrow> ustr option option" where
  "Education_start_date x = Some (edu_start_date x)"

definition Education_graduation_date :: "Education \<Rightarrow> ustr option option" where
  "Education_graduation_date x = Some (graduation_date x)"

text \<open>
  \<open>sorted\<close> with the key \<open>x.attr or ''\<close>: the keys are computed first, and a missing
  attribute raises (\<open>None\<close>).
\<close>

definition sorted_by_attr :: "('a \<Rightarrow> ustr option option) \<Rightarrow> 'a list \<Rightarrow> 'a list option" where
  "sorted_by_attr attr v =
     (if list_all (hasattr attr) v
      then Some (py_sorted_reverse
                   (\<lambda>x. case attr x of None \<Rightarrow> [] | Some d \<Rightarrow> or_empty d) v)
      else None)"

text \<open>
  The validator, for a list of objects with the two attributes \<open>start_date_attr\<close> and
  \<open>graduation_date_attr\<close>. The \<open>try\<close> either returns a sorted list, or raises, or takes
  neither branch; in the last two cases the function returns \<open>v\<close>.
\<close>

definition sort_by_date ::
  "('a \<Rightarrow> ustr option option) \<Rightarrow> ('a \<Rightarrow> ustr option option) \<Rightarrow> 'a list \<Rightarrow> 'a list" where
  "sort_by_date start_date_attr graduation_date_attr v =
     (if v = [] then v
      else
        (case (if hasattr start_date_attr (hd v) then sorted_by_attr start_date_attr v
               else if hasattr graduation_date_attr (hd v)
                    then sorted_by_attr graduation_date_attr v
               else None) of
           Some r \<Rightarrow> r
         | None \<Rightarrow> v))"

definition validate_Profile :: "leaves \<Rightarrow> json \<Rightarrow> Profile option" where
  "validate_Profile L v =
     (case v of
        JObj kv \<Rightarrow>
          do {
            personal_info' \<leftarrow>
              required (validate_PersonalInfo L) kv [lit ''personalInfo'', lit ''personal_info''];
            work_experience' \<leftarrow>
              with_default [] (list_of (validate_WorkExperience L)) kv
                [lit ''workExperience'', lit ''work_experience''];
            education' \<leftarrow>
              with_default [] (list_of (validate_Education L)) kv [lit ''education''];
            skills' \<leftarrow>
              with_default \<lparr> technical = [], soft = [], languages = [] \<rparr> (validate_Skills L) kv
                [lit ''skills''];
            certifications' \<leftarrow>
              optional (list_of (validate_Certification L)) kv [lit ''certifications''];
            projects' \<leftarrow> optional (list_of (validate_Project L)) kv [lit ''projects''];
            Some \<lparr> personal_info = personal_info',
                   work_experience =
                     sort_by_date WorkExperience_start_date WorkExperience_graduation_date
                       work_experience',
                   education =
                     sort_by_date Education_start_date Education_graduation_date education',
                   skills = skills', certifications = certifications',
                   projects = projects' \<rparr>
          }
      | _ \<Rightarrow> None)"

definition Profile_schema :: ty where
  "Profile_schema = TModel
     [ ([lit ''personalInfo'', lit ''personal_info''], True, PersonalInfo_schema),
       ([lit ''workExperience'', lit ''work_experience''], False, TList WorkExperience_schema),
       ([lit ''education''], False, TList Education_schema),
       ([lit ''skills''], False, Skills_schema),
       ([lit ''certifications''], False, TOpt (TList Certification_schema)),
       ([lit ''projects''], False, TOpt (TList Project_schema)) ]"

subsection \<open>The chain \<open>prompt | llm | parser\<close>\<close>



text \<open>One row of a model's schema, for an object with the members \<open>kv\<close>.\<close>

definition field_ok ::
  "coercions \<Rightarrow> (ustr \<times> json) list \<Rightarrow> ustr list \<times> bool \<times> ty \<Rightarrow> bool" where
  "field_ok C kv f =
     (case lookup kv (fst f) of
        None \<Rightarrow> \<not> fst (snd f)
      | Some x \<Rightarrow> conforms C (snd (snd f)) x)"

subsection \<open>Examples\<close>

text \<open>
  For the examples, the libraries' answers on two classes of strings, and no answer
  beyond them. A number: an optional sign, digits, and optionally a point and digits
  (the library also reads exponents, infinities and surrounding blanks). An email
  address: after \<open>strip\<close>, at most 254 characters with one \<open>@\<close>; before it at most 64
  ASCII letters, digits and \<open>!#$%&'*+-/=?^_`{|}~\<close>, in groups separated by single
  points; after it at least two labels of letters, digits and inner hyphens (none at
  both the third and the fourth place), the last label ending with a letter and not a
  special-use name; the normalised form has the domain in lower case (the library also
  accepts internationalised addresses and a display name before the address in angle
  brackets).
\<close>

fun split_on :: "nat \<Rightarrow> ustr \<Rightarrow> ustr list" where
  "split_on c [] = [[]]"
| "split_on c (x # xs) =
     (if x = c then [] # split_on c xs
      else (case split_on c xs of p # ps \<Rightarrow> (x # p) # ps | [] \<Rightarrow> [[x]]))"

definition is_digit :: "nat \<Rightarrow> bool" where
  "is_digit c = (48 \<le> c \<and> c \<le> 57)"

definition is_letter :: "nat \<Rightarrow> bool" where
  "is_letter c = ((65 \<le> c \<and> c \<le> 90) \<or> (97 \<le> c \<and> c \<le> 122))"

definition digits_value :: "ustr \<Rightarrow> nat" where
  "digits_value ds = foldl (\<lambda>a c. 10 * a + (c - 48)) 0 ds"

definition numeral_ok :: "ustr \<Rightarrow> bool" where
  "numeral_ok ds = (ds \<noteq> [] \<and> list_all is_digit ds)"

definition unsigned_decimal :: "ustr \<Rightarrow> real option" where
  "unsigned_decimal s =
     (case split_on 46 s of
        [i] \<Rightarrow> if numeral_ok i then Some (real (digits_value i)) else None
      | [i, f] \<Rightarrow>
          if numeral_ok i \<and> numeral_ok f
          then Some (real (digits_value i) + real (digits_value f) / 10 ^ length f)
          else None
      | _ \<Rightarrow> None)"

definition decimal_of_str :: "ustr \<Rightarrow> real option" where
  "decimal_of_str s =
     (case s of
        [] \<Rightarrow> None
      | c # r \<Rightarrow>
          if c = 45 then map_option uminus (unsigned_decimal r)
          else if c = 43 then unsigned_decimal r
          else unsigned_decimal s)"

definition atext :: "nat \<Rightarrow> bool" where
  "atext c = (is_letter c \<or> is_digit c \<or> c \<in> set (lit ''!#$%&*+-/=?^_{|}~'') \<or> c = 39 \<or> c = 96)"

definition local_part_ok :: "ustr \<Rightarrow> bool" where
  "local_part_ok l =
     (length l \<le> 64 \<and> list_all (\<lambda>g. g \<noteq> [] \<and> list_all atext g) (split_on 46 l))"

definition label_ok :: "ustr \<Rightarrow> bool" where
  "label_ok g =
     (g \<noteq> [] \<and> length g \<le> 63 \<and> list_all (\<lambda>c. is_letter c \<or> is_digit c \<or> c = 45) g
      \<and> hd g \<noteq> 45 \<and> last g \<noteq> 45 \<and> take 2 (drop 2 g) \<noteq> [45, 45])"

definition special_use :: "ustr list" where
  "special_use =
     [lit ''arpa'', lit ''invalid'', lit ''local'', lit ''localhost'', lit ''onion'', lit ''test'']"

definition domain_ok :: "ustr \<Rightarrow> bool" where
  "domain_ok d =
     (length d \<le> 253 \<and> 2 \<le> length (split_on 46 d) \<and> list_all label_ok (split_on 46 d)
      \<and> is_letter (last d) \<and> last (split_on 46 d) \<notin> set special_use)"

definition ascii_email :: "ustr \<Rightarrow> ustr option" where
  "ascii_email s =
     (case split_on 64 (strip s) of
        [l, d] \<Rightarrow>
          if length (strip s) \<le> 254 \<and> local_part_ok l \<and> domain_ok (ascii_lower d)
          then Some (l @ [64] @ ascii_lower d) else None
      | _ \<Rightarrow> None)"

definition example_coercions :: coercions where
  "example_coercions = \<lparr> float_of_str = decimal_of_str, email_of_str = ascii_email \<rparr>"

text \<open>
  A response with two jobs and three degrees, out of order; the same without the email;
  the same with a number for the first name; the same with the string \<open>yes\<close> for the
  \<open>bool\<close> field \<open>willing_to_relocate\<close>.
\<close>

definition example_location :: "(ustr \<times> json) list" where
  "example_location =
     [ (lit ''city'', JStr (lit ''Zurich'')), (lit ''country'', JStr (lit ''Switzerland'')) ]"

definition example_personal_info :: "(ustr \<times> json) list" where
  "example_personal_info =
     [ (lit ''firstName'', JStr (lit ''Maxim'')), (lit ''last_name'', JStr (lit ''Gusev'')),
       (lit ''email'', JStr (lit ''maxim.gusev@example.com'')),
       (lit ''location'', JObj example_location) ]"

definition example_lists :: "(ustr \<times> json) list" where
  "example_lists =
     [ (lit ''workExperience'', JArr
         [ JObj [ (lit ''id'', JStr (lit ''exp_1'')), (lit ''title'', JStr (lit ''Junior Data Scientist'')),
                  (lit ''company'', JStr (lit ''Swiss Re'')), (lit ''startDate'', JStr (lit ''2021-07'')),
                  (lit ''endDate'', JStr (lit ''2023-05'')) ],
           JObj [ (lit ''id'', JStr (lit ''exp_2'')), (lit ''title'', JStr (lit ''Senior ML Engineer'')),
                  (lit ''company'', JStr (lit ''Google Research'')), (lit ''startDate'', JStr (lit ''2024-01'')),
                  (lit ''endDate'', JNull), (lit ''isCurrent'', JBool True) ] ]),
       (lit ''education'', JArr
         [ JObj [ (lit ''id'', JStr (lit ''edu_1'')), (lit ''institution'', JStr (lit ''ETH Zurich'')),
                  (lit ''degree'', JStr (lit ''master'')), (lit ''field'', JStr (lit ''Computer Science'')),
                  (lit ''graduationDate'', JStr (lit ''2023-09'')), (lit ''gpa'', JNum 5.54) ],
           JObj [ (lit ''id'', JStr (lit ''edu_2'')), (lit ''institution'', JStr (lit ''University of Geneva'')),
                  (lit ''degree'', JStr (lit ''bachelor'')), (lit ''field'', JStr (lit ''Computer Science'')),
                  (lit ''startDate'', JStr (lit ''2017-09'')), (lit ''graduationDate'', JStr (lit ''2021-06'')) ],
           JObj [ (lit ''id'', JStr (lit ''edu_3'')), (lit ''institution'', JStr (lit ''ETH Zurich'')),
                  (lit ''degree'', JStr (lit ''doctorate'')), (lit ''field'', JStr (lit ''Computer Science'')),
                  (lit ''startDate'', JStr (lit ''2023-10'')) ] ]) ]"

definition example_response :: json where
  "example_response = JObj ((lit ''personalInfo'', JObj example_personal_info) # example_lists)"






text \<open>The chain that fails every parse, configured for no attempt.\<close>

definition stub_always_fails_no_attempt :: CVExtractionChain where
  "stub_always_fails_no_attempt = stub_always_fails \<lparr> max_retries := 0 \<rparr>"

section \<open>Properties of the scorer\<close>

lemma if_weight: "(if c then s + k else s) = s + weight c k"
  by (simp add: weight_def)

lemma weight_simps: "weight False w = 0" "weight True w = w"
  by (simp_all add: weight_def)

lemma weight_bounds: "0 \<le> w \<Longrightarrow> 0 \<le> weight c w \<and> weight c w \<le> w"
  by (simp add: weight_def)

lemma calculate_confidence_min: "calculate_confidence p =
      min ((identity_points p + work_points p + education_points p + skills_points p) / 100) 1"
  by (simp add: calculate_confidence_def if_weight Let_def identity_points_def work_points_def
        education_points_def skills_points_def weight_simps add.assoc)

lemma identity_points_range: "0 \<le> identity_points p \<and> identity_points p \<le> identity_cap"
  by (simp add: identity_points_def identity_cap_def weight_def)

lemma work_points_range: "0 \<le> work_points p \<and> work_points p \<le> work_cap"
  by (simp add: work_points_def work_cap_def weight_def)

lemma education_points_range: "0 \<le> education_points p \<and> education_points p \<le> education_cap"
  by (simp add: education_points_def education_cap_def weight_def)

lemma skills_points_range: "0 \<le> skills_points p \<and> skills_points p \<le> skills_cap"
  by (simp add: skills_points_def skills_cap_def weight_def)

lemma calculate_confidence_buckets:
  "calculate_confidence p =
     (identity_points p + work_points p + education_points p + skills_points p) / 100"
proof -
  have "identity_points p + work_points p + education_points p + skills_points p \<le> 100"
    using identity_points_range [of p] work_points_range [of p]
      education_points_range [of p] skills_points_range [of p]
    by (simp add: identity_cap_def work_cap_def education_cap_def skills_cap_def)
  then show ?thesis
    by (simp add: calculate_confidence_min)
qed

subsection \<open>Monotonicity of the buckets\<close>

lemma weight_mono: "(c \<Longrightarrow> c') \<Longrightarrow> 0 \<le> w \<Longrightarrow> weight c w \<le> weight c' w"
  by (auto simp: weight_def)

lemma opt_ext_truthy_str: "opt_ext a b \<Longrightarrow> truthy_opt_str a \<Longrightarrow> truthy_opt_str b"
  by (auto simp: opt_ext_def truthy_opt_str_def split: option.splits)

lemma opt_ext_truthy_float: "opt_ext a b \<Longrightarrow> truthy_opt_float a \<Longrightarrow> truthy_opt_float b"
  by (auto simp: opt_ext_def truthy_opt_float_def split: option.splits)

lemma entries_ext_nonempty: "entries_ext R xs ys \<Longrightarrow> xs \<noteq> [] \<Longrightarrow> ys \<noteq> []"
  by (auto simp: entries_ext_def)

lemma entries_ext_length: "entries_ext R xs ys \<Longrightarrow> n \<le> length xs \<Longrightarrow> n \<le> length ys"
  by (simp add: entries_ext_def)

lemma entries_ext_ex:
  assumes "entries_ext R xs ys" and "list_ex P xs" and "\<And>x y. R x y \<Longrightarrow> P x \<Longrightarrow> Q y"
  shows "list_ex Q ys"
  using assms unfolding entries_ext_def list_ex_iff list_all_iff by blast

lemma identity_points_mono:
  assumes "PersonalInfo_ext (personal_info p) (personal_info q)"
  shows "identity_points p \<le> identity_points q"
proof -
  from assms have e: "email (personal_info p) = email (personal_info q)"
    and ph: "opt_ext (phone (personal_info p)) (phone (personal_info q))"
    and c: "opt_ext (city (location (personal_info p))) (city (location (personal_info q)))"
    and l: "opt_ext (linkedin (personal_info p)) (linkedin (personal_info q))"
    and g: "opt_ext (github (personal_info p)) (github (personal_info q))"
    and s: "opt_ext (summary (personal_info p)) (summary (personal_info q))"
    by (simp_all add: PersonalInfo_ext_def Location_ext_def)
  have "weight (truthy_opt_str (phone (personal_info p))) 5
          \<le> weight (truthy_opt_str (phone (personal_info q))) 5"
    by (rule weight_mono) (auto intro: opt_ext_truthy_str [OF ph])
  moreover have "weight (truthy_opt_str (city (location (personal_info p)))) 5
          \<le> weight (truthy_opt_str (city (location (personal_info q)))) 5"
    by (rule weight_mono) (auto intro: opt_ext_truthy_str [OF c])
  moreover have "weight (truthy_opt_str (linkedin (personal_info p))
             \<or> truthy_opt_str (github (personal_info p))) 5
          \<le> weight (truthy_opt_str (linkedin (personal_info q))
             \<or> truthy_opt_str (github (personal_info q))) 5"
    by (rule weight_mono) (auto dest: opt_ext_truthy_str [OF l] opt_ext_truthy_str [OF g])
  moreover have "weight (truthy_opt_str (summary (personal_info p))) 5
          \<le> weight (truthy_opt_str (summary (personal_info q))) 5"
    by (rule weight_mono) (auto intro: opt_ext_truthy_str [OF s])
  ultimately show ?thesis
    by (simp add: identity_points_def e)
qed

lemma work_points_mono:
  assumes x: "entries_ext WorkExperience_ext (work_experience p) (work_experience q)"
  shows "work_points p \<le> work_points q"
proof -
  have ne: "work_experience p \<noteq> [] \<Longrightarrow> work_experience q \<noteq> []"
    by (rule entries_ext_nonempty [OF x])
  have "weight (work_experience p \<noteq> []) 15 \<le> weight (work_experience q \<noteq> []) 15"
    by (rule weight_mono) (auto dest: ne)
  moreover have "weight (work_experience p \<noteq> [] \<and> length (work_experience p) \<ge> 2) 5
      \<le> weight (work_experience q \<noteq> [] \<and> length (work_experience q) \<ge> 2) 5"
    by (rule weight_mono) (auto dest: ne entries_ext_length [OF x])
  moreover have "weight (work_experience p \<noteq> []
             \<and> list_ex (\<lambda>exp. length (responsibilities exp) \<ge> 3) (work_experience p)) 5
      \<le> weight (work_experience q \<noteq> []
             \<and> list_ex (\<lambda>exp. length (responsibilities exp) \<ge> 3) (work_experience q)) 5"
  proof (rule weight_mono)
    assume a: "work_experience p \<noteq> []
             \<and> list_ex (\<lambda>exp. length (responsibilities exp) \<ge> 3) (work_experience p)"
    have "list_ex (\<lambda>exp. length (responsibilities exp) \<ge> 3) (work_experience q)"
      by (rule entries_ext_ex [OF x conjunct2 [OF a]])
        (auto simp: WorkExperience_ext_def dest: entries_ext_length)
    with a ne show "work_experience q \<noteq> []
             \<and> list_ex (\<lambda>exp. length (responsibilities exp) \<ge> 3) (work_experience q)"
      by simp
  qed simp
  moreover have "weight (work_experience p \<noteq> []
             \<and> list_ex (\<lambda>exp. achievements exp \<noteq> []) (work_experience p)) 5
      \<le> weight (work_experience q \<noteq> []
             \<and> list_ex (\<lambda>exp. achievements exp \<noteq> []) (work_experience q)) 5"
  proof (rule weight_mono)
    assume a: "work_experience p \<noteq> []
             \<and> list_ex (\<lambda>exp. achievements exp \<noteq> []) (work_experience p)"
    have "list_ex (\<lambda>exp. achievements exp \<noteq> []) (work_experience q)"
      by (rule entries_ext_ex [OF x conjunct2 [OF a]])
        (auto simp: WorkExperience_ext_def dest: entries_ext_nonempty)
    with a ne show "work_experience q \<noteq> []
             \<and> list_ex (\<lambda>exp. achievements exp \<noteq> []) (work_experience q)"
      by simp
  qed simp
  ultimately show ?thesis
    by (simp add: work_points_def)
qed

lemma education_points_mono:
  assumes x: "entries_ext Education_ext (education p) (education q)"
  shows "education_points p \<le> education_points q"
proof -
  have ne: "education p \<noteq> [] \<Longrightarrow> education q \<noteq> []"
    by (rule entries_ext_nonempty [OF x])
  have "weight (education p \<noteq> []) 10 \<le> weight (education q \<noteq> []) 10"
    by (rule weight_mono) (auto dest: ne)
  moreover have "weight (education p \<noteq> [] \<and> length (education p) \<ge> 1) 5
      \<le> weight (education q \<noteq> [] \<and> length (education q) \<ge> 1) 5"
    by (rule weight_mono) (auto dest: ne entries_ext_length [OF x])
  moreover have "weight (education p \<noteq> []
             \<and> list_ex (\<lambda>edu. truthy_opt_float (gpa edu)) (education p)) 5
      \<le> weight (education q \<noteq> []
             \<and> list_ex (\<lambda>edu. truthy_opt_float (gpa edu)) (education q)) 5"
  proof (rule weight_mono)
    assume a: "education p \<noteq> []
             \<and> list_ex (\<lambda>edu. truthy_opt_float (gpa edu)) (education p)"
    have "list_ex (\<lambda>edu. truthy_opt_float (gpa edu)) (education q)"
      by (rule entries_ext_ex [OF x conjunct2 [OF a]])
        (auto simp: Education_ext_def dest: opt_ext_truthy_float)
    with a ne show "education q \<noteq> []
             \<and> list_ex (\<lambda>edu. truthy_opt_float (gpa edu)) (education q)"
      by simp
  qed simp
  ultimately show ?thesis
    by (simp add: education_points_def)
qed

lemma skills_points_mono:
  assumes x: "entries_ext TechnicalSkill_ext (technical (skills p)) (technical (skills q))"
  shows "skills_points p \<le> skills_points q"
proof -
  have ne: "technical (skills p) \<noteq> [] \<Longrightarrow> technical (skills q) \<noteq> []"
    by (rule entries_ext_nonempty [OF x])
  have "weight (technical (skills p) \<noteq> []) 10 \<le> weight (technical (skills q) \<noteq> []) 10"
    by (rule weight_mono) (auto dest: ne)
  moreover have "weight (technical (skills p) \<noteq> [] \<and> length (technical (skills p)) \<ge> 5) 5
      \<le> weight (technical (skills q) \<noteq> [] \<and> length (technical (skills q)) \<ge> 5) 5"
    by (rule weight_mono) (auto dest: ne entries_ext_length [OF x])
  moreover have "weight (technical (skills p) \<noteq> [] \<and> length (technical (skills p)) \<ge> 10) 5
      \<le> weight (technical (skills q) \<noteq> [] \<and> length (technical (skills q)) \<ge> 10) 5"
    by (rule weight_mono) (auto dest: ne entries_ext_length [OF x])
  ultimately show ?thesis
    by (simp add: skills_points_def)
qed

section \<open>Properties of the extraction loop\<close>

lemma dropWhile_empty_iff: "dropWhile P xs = [] \<longleftrightarrow> list_all P xs"
  by (induction xs) auto

lemma strip_empty_iff: "strip s = [] \<longleftrightarrow> blank s"
proof -
  have a: "strip s = [] \<longleftrightarrow> (\<forall>x\<in>set (dropWhile py_isspace s). py_isspace x)"
    by (simp add: strip_def)
  have b: "(\<forall>x\<in>set (dropWhile py_isspace s). py_isspace x) \<longleftrightarrow> (\<forall>x\<in>set s. py_isspace x)"
  proof
    assume h: "\<forall>x\<in>set (dropWhile py_isspace s). py_isspace x"
    have "dropWhile py_isspace s = []"
    proof (rule ccontr)
      assume n: "dropWhile py_isspace s \<noteq> []"
      then have "\<not> py_isspace (hd (dropWhile py_isspace s))"
        by (rule hd_dropWhile)
      moreover from n have "hd (dropWhile py_isspace s) \<in> set (dropWhile py_isspace s)"
        by (rule hd_in_set)
      ultimately show False using h by blast
    qed
    then show "\<forall>x\<in>set s. py_isspace x" by simp
  next
    assume "\<forall>x\<in>set s. py_isspace x"
    then show "\<forall>x\<in>set (dropWhile py_isspace s). py_isspace x"
      by (blast dest: set_dropWhileD)
  qed
  show ?thesis
    by (simp add: a b blank_def list_all_iff)
qed

lemma guard_iff: "(cv_text = [] \<or> strip cv_text = []) \<longleftrightarrow> blank cv_text"
  by (auto simp: strip_empty_iff blank_def)

lemma py_range_nonpos: "n \<le> 0 \<Longrightarrow> py_range n = []"
  by (simp add: py_range_def)

lemma try_body_fails:
  "failure_of (chain self cv_text (invocations w)) = Some e \<Longrightarrow>
   try_body self cv_text w = (Inl e, invoked w)"
  by (auto simp: failure_of_def try_body_def split: invocation.splits pyobject.splits)

lemma invocations_logger [simp]: "invocations (logger lv m w) = invocations w"
  by (simp add: logger_def)

lemma invocations_invoked [simp]: "invocations (invoked w) = invocations w + 1"
  by (simp add: invoked_def)

lemma invocations_after_failure [simp]:
  "invocations (after_failure e a n w) = invocations w + 1"
  by (cases e) (simp_all add: after_failure_def)

lemma attempts_caught_step:
  assumes "failure_of (chain self cv_text (invocations w)) = Some e"
    and "schema_failure e \<or> transport_failure e"
  shows "attempts self cv_text (attempt # rest) w =
        (if int attempt = max_retries self - 1
         then (Inl (ValueError (terminal_message e (max_retries self))),
               after_failure e attempt (max_retries self) w)
         else attempts self cv_text rest (after_failure e attempt (max_retries self) w))"
proof (cases e)
  case (OutputParserException m)
  then show ?thesis
    using try_body_fails [OF assms(1)]
    by (simp add: terminal_message_def after_failure_def Let_def)
next
  case (OtherException m)
  then show ?thesis
    using try_body_fails [OF assms(1)]
    by (simp add: terminal_message_def after_failure_def Let_def)
next
  case (NonException m)
  with assms(2) show ?thesis
    by (simp add: schema_failure_def transport_failure_def)
qed

lemma attempts_uncaught_step:
  assumes "failure_of (chain self cv_text (invocations w)) = Some (NonException m)"
  shows "attempts self cv_text (attempt # rest) w = (Inl (Uncaught m), invoked w)"
  using try_body_fails [OF assms] by simp

lemma failure_of_None:
  "failure_of r = None \<longleftrightarrow> (\<exists>p. r = Returns (ProfileObj p))"
  by (auto simp: failure_of_def split: invocation.splits pyobject.splits)

lemma attempts_success_step:
  assumes "chain self cv_text (invocations w) = Returns (ProfileObj p)"
  shows "attempts self cv_text (attempt # rest) w = (Inr (Some p), after_success p w)"
  using assms by (simp add: try_body_def after_success_def Let_def)

declare attempts.simps(2) [simp del]

lemma attempts_all_fail:
  assumes mr: "max_retries self = int n"
    and fail: "\<And>i. fails_caught (chain self cv_text i)"
  shows "a < n \<Longrightarrow>
     fst (attempts self cv_text [a..<n] w) =
        Inl (ValueError (terminal_message
           (the (failure_of (chain self cv_text (invocations w + (n - a - 1))))) (int n)))
      \<and> invocations (snd (attempts self cv_text [a..<n] w)) = invocations w + (n - a)"
proof (induction "n - a" arbitrary: a w)
  case 0
  then show ?case by simp
next
  case (Suc d)
  from fail [of "invocations w"] obtain e
    where e: "failure_of (chain self cv_text (invocations w)) = Some e"
      and c: "schema_failure e \<or> transport_failure e"
    by (auto simp: fails_caught_def split: option.splits)
  define w1 where "w1 = after_failure e a (max_retries self) w"
  have w1: "invocations w1 = invocations w + 1"
    by (simp add: w1_def)
  have step: "attempts self cv_text (a # [Suc a..<n]) w =
        (if int a = max_retries self - 1
         then (Inl (ValueError (terminal_message e (max_retries self))), w1)
         else attempts self cv_text [Suc a..<n] w1)"
    unfolding w1_def by (rule attempts_caught_step [OF e c])
  have upt: "[a..<n] = a # [Suc a..<n]"
    using Suc.prems by (simp add: upt_conv_Cons)
  show ?case
  proof (cases "Suc a = n")
    case True
    then have "int a = max_retries self - 1" using mr by simp
    with step upt True e w1 mr show ?thesis by simp
  next
    case False
    then have lt: "Suc a < n" and ne: "int a \<noteq> max_retries self - 1"
      using Suc.prems mr by simp_all
    have d: "d = n - Suc a" using Suc.hyps(2) by simp
    have idx: "invocations w1 + (n - Suc a - 1) = invocations w + (n - a - 1)"
      using w1 lt by simp
    from Suc.hyps(1) [OF d lt, of w1] step ne upt idx w1 lt show ?thesis by simp
  qed
qed


lemma terminal_message_names_cause:
  "schema_failure e \<or> transport_failure e \<Longrightarrow> \<exists>pre. terminal_message e n = pre @ cause e"
  by (cases e) (auto simp: terminal_message_def cause_def schema_failure_def
      transport_failure_def)

lemma extract_not_blank:
  "\<not> blank cv_text \<Longrightarrow>
   extract self cv_text w =
     attempts self cv_text (py_range (max_retries self))
       (logger LogDebug (lit ''CV text length: '' @ str_int (int (length cv_text))
          @ lit '' characters'') (logger LogInfo (lit ''Starting async CV extraction'') w))"
  using guard_iff [of cv_text] by (simp add: extract_def Let_def)

lemma extract_sync_not_blank:
  "\<not> blank cv_text \<Longrightarrow>
   extract_sync self cv_text w =
     attempts self cv_text (py_range (max_retries self))
       (logger LogDebug (lit ''CV text length: '' @ str_int (int (length cv_text))
          @ lit '' characters'') (logger LogInfo (lit ''Starting sync CV extraction'') w))"
  using guard_iff [of cv_text] by (simp add: extract_sync_def Let_def)

lemma attempts_exhausted:
  assumes "1 \<le> max_retries self" and "\<And>i. fails_caught (chain self cv_text i)"
  shows "fst (attempts self cv_text (py_range (max_retries self)) w) =
        Inl (ValueError (terminal_message
           (the (failure_of (chain self cv_text (invocations w + nat (max_retries self) - 1))))
           (max_retries self)))
      \<and> invocations (snd (attempts self cv_text (py_range (max_retries self)) w))
          = invocations w + nat (max_retries self)"
proof -
  have mr: "max_retries self = int (nat (max_retries self))" and pos: "0 < nat (max_retries self)"
    using assms(1) by simp_all
  from attempts_all_fail [OF mr assms(2) pos, of w] show ?thesis
    using assms(1) by (simp add: py_range_def)
qed

lemma attempts_stateless:
  assumes "\<And>i j. chain self cv_text i = chain self cv_text j"
  shows "fst (attempts self cv_text xs w1) = fst (attempts self cv_text xs w2)"
proof (induction xs arbitrary: w1 w2)
  case Nil
  show ?case by simp
next
  case (Cons a xs)
  define r where "r = chain self cv_text 0"
  have r1: "chain self cv_text (invocations w1) = r"
    and r2: "chain self cv_text (invocations w2) = r"
    unfolding r_def by (rule assms)+
  show ?case
  proof (cases "failure_of r")
    case None
    then obtain p where p: "r = Returns (ProfileObj p)"
      by (auto simp: failure_of_None)
    show ?thesis
      using attempts_success_step [of self cv_text w1 p a xs]
        attempts_success_step [of self cv_text w2 p a xs]
      by (simp add: r1 r2 p)
  next
    case (Some e)
    show ?thesis
    proof (cases "schema_failure e \<or> transport_failure e")
      case True
      have s1: "failure_of (chain self cv_text (invocations w1)) = Some e"
        and s2: "failure_of (chain self cv_text (invocations w2)) = Some e"
        using Some by (simp_all add: r1 r2)
      show ?thesis
        unfolding attempts_caught_step [OF s1 True] attempts_caught_step [OF s2 True]
        by (simp add: Cons.IH)
    next
      case False
      then obtain m where m: "e = NonException m"
        by (cases e) (simp_all add: schema_failure_def transport_failure_def)
      have s1: "failure_of (chain self cv_text (invocations w1)) = Some (NonException m)"
        and s2: "failure_of (chain self cv_text (invocations w2)) = Some (NonException m)"
        using Some m by (simp_all add: r1 r2)
      show ?thesis
        unfolding attempts_uncaught_step [OF s1] attempts_uncaught_step [OF s2]
        by simp
    qed
  qed
qed

section \<open>The claims about the extraction loop\<close>

text \<open>
  Exhausted retries, with at least one attempt configured. The text passes the emptiness
  guard and every invocation fails with an exception that the loop catches (a
  schema-validation failure or any other \<open>Exception\<close>). Then \<open>extract\<close> and
  \<open>extract_sync\<close> invoke the chain exactly \<open>max_retries\<close> times, one invocation directly
  after the other (the only effects in between are log lines), and raise a \<open>ValueError\<close>;
  its message is the terminal message for the exception \<open>e\<close> of the last invocation and
  ends with the text of \<open>e\<close>. The result is an error, so no \<open>Profile\<close> is returned.
\<close>

lemma extract_retries_then_raises:
  assumes "\<not> blank cv_text" and "1 \<le> max_retries self"
    and "\<forall>i. fails_caught (chain self cv_text i)"
  shows "\<exists>e pre.
        failure_of (chain self cv_text (invocations w + nat (max_retries self) - 1)) = Some e
      \<and> terminal_message e (max_retries self) = pre @ cause e
      \<and> fst (extract self cv_text w)
          = Inl (ValueError (terminal_message e (max_retries self)))
      \<and> fst (extract_sync self cv_text w)
          = Inl (ValueError (terminal_message e (max_retries self)))
      \<and> invocations (snd (extract self cv_text w)) = invocations w + nat (max_retries self)
      \<and> invocations (snd (extract_sync self cv_text w))
          = invocations w + nat (max_retries self)"
proof -
  let ?k = "invocations w + nat (max_retries self) - 1"
  from assms(3) obtain e where e: "failure_of (chain self cv_text ?k) = Some e"
    and c: "schema_failure e \<or> transport_failure e"
    by (auto simp: fails_caught_def split: option.splits)
  from terminal_message_names_cause [OF c] obtain pre
    where pre: "terminal_message e (max_retries self) = pre @ cause e" by blast
  have f: "\<And>i. fails_caught (chain self cv_text i)" using assms(3) by simp
  note a = attempts_exhausted [OF assms(2) f]
  show ?thesis
    using e pre a
    by (simp add: extract_not_blank [OF assms(1)] extract_sync_not_blank [OF assms(1)])
qed

lemma extract_retries_then_raises_example:
  "\<not> blank (lit ''cv'') \<and> 1 \<le> max_retries stub_always_fails
   \<and> (\<forall>i. fails_caught (chain stub_always_fails (lit ''cv'') i))
   \<and> fst (extract_sync stub_always_fails (lit ''cv'') world0)
       = Inl (ValueError (lit ''Failed to parse CV after 2 attempts: bad1''))
   \<and> invocations (snd (extract_sync stub_always_fails (lit ''cv'') world0)) = 2"
proof -
  have h1: "\<not> blank (lit ''cv'')"
    by (simp add: blank_def lit_def py_isspace_def)
  have h2: "1 \<le> max_retries stub_always_fails"
    by (simp add: stub_always_fails_def)
  have h3: "\<forall>i. fails_caught (chain stub_always_fails (lit ''cv'') i)"
    by (simp add: stub_always_fails_def fails_caught_def failure_of_def schema_failure_def)
  have m: "terminal_message (OutputParserException (lit ''bad'' @ str_nat 1)) 2
      = lit ''Failed to parse CV after 2 attempts: bad1''"
    by (simp add: terminal_message_def str_int_def str_nat.simps lit_def)
  from extract_retries_then_raises [OF h1 h2 h3, of world0] h1 h2 h3 m show ?thesis
    by (auto simp: stub_always_fails_def world0_def failure_of_def)
qed

text \<open>
  Claim C1. For a text that is not empty, when every invocation of the chain fails,
  \<open>extract\<close> and \<open>extract_sync\<close> should re-issue the request up to \<open>max_retries\<close> times and
  then raise a \<open>ValueError\<close> that names the last failure, never returning less than a
  \<open>Profile\<close>. With \<open>max_retries = 0\<close>, which the constructor accepts, the code does
  otherwise: for the chain that fails every parse, both functions run no attempt, raise
  nothing and return \<open>None\<close>, against their return annotation \<open>Profile\<close> and the
  \<open>Raises\<close> entry of their docstring.
\<close>

theorem no_attempt_configured_returns_None_without_error:
  "\<not> blank (lit ''cv'')
   \<and> max_retries stub_always_fails_no_attempt = 0
   \<and> fails_caught (chain stub_always_fails_no_attempt (lit ''cv'') 0)
   \<and> fst (extract stub_always_fails_no_attempt (lit ''cv'') world0) = Inr None
   \<and> fst (extract_sync stub_always_fails_no_attempt (lit ''cv'') world0) = Inr None
   \<and> invocations (snd (extract stub_always_fails_no_attempt (lit ''cv'') world0)) = 0
   \<and> invocations (snd (extract_sync stub_always_fails_no_attempt (lit ''cv'') world0)) = 0"
proof -
  have nb: "\<not> blank (lit ''cv'')"
    by (simp add: blank_def lit_def py_isspace_def)
  have mr: "max_retries stub_always_fails_no_attempt = 0"
    by (simp add: stub_always_fails_no_attempt_def)
  have f: "fails_caught (chain stub_always_fails_no_attempt (lit ''cv'') 0)"
    by (simp add: stub_always_fails_no_attempt_def stub_always_fails_def fails_caught_def
        failure_of_def schema_failure_def)
  from nb mr f show ?thesis
    by (simp add: extract_not_blank [OF nb] extract_sync_not_blank [OF nb] py_range_def
        world0_def)
qed

text \<open>
  Claim C2. For a text that is empty or consists only of whitespace, \<open>extract\<close> and
  \<open>extract_sync\<close> raise \<open>ValueError("CV text cannot be empty")\<close> and leave the world as
  it was: the chain is not invoked, nothing is logged, no attempt of the loop runs.
\<close>

theorem blank_text_fails_before_any_invocation:
  assumes "cv_text = [] \<or> list_all py_isspace cv_text"
  shows "extract self cv_text w = (Inl (ValueError (lit ''CV text cannot be empty'')), w)
       \<and> extract_sync self cv_text w
           = (Inl (ValueError (lit ''CV text cannot be empty'')), w)"
proof -
  from assms have "blank cv_text" by (auto simp: blank_def)
  then have "cv_text = [] \<or> strip cv_text = []" by (simp add: guard_iff)
  then show ?thesis by (simp add: extract_def extract_sync_def)
qed

theorem blank_text_fails_before_any_invocation_witness:
  "list_all py_isspace [32, 9, 10, 8195]
   \<and> extract_sync stub_demo [32, 9, 10, 8195] world0
       = (Inl (ValueError (lit ''CV text cannot be empty'')), world0)
   \<and> extract stub_demo [] world0
       = (Inl (ValueError (lit ''CV text cannot be empty'')), world0)"
  using blank_text_fails_before_any_invocation [of "[32, 9, 10, 8195]" stub_demo world0]
    blank_text_fails_before_any_invocation [of "[]" stub_demo world0]
  by (simp add: py_isspace_def)

text \<open>
  Claim C7. Against a stub whose answer to a text does not depend on how many
  invocations came before, two runs of the extraction on the same text give the same
  result, whatever the worlds they start in; and \<open>extract\<close> gives what \<open>extract_sync\<close>
  gives. In particular the two runs return the same \<open>Profile\<close> when one returns a
  \<open>Profile\<close>.
\<close>

theorem extraction_deterministic_on_stateless_stub:
  assumes "\<forall>i j. chain self cv_text i = chain self cv_text j"
  shows "fst (extract_sync self cv_text w1) = fst (extract_sync self cv_text w2)
       \<and> fst (extract self cv_text w1) = fst (extract self cv_text w2)
       \<and> fst (extract self cv_text w1) = fst (extract_sync self cv_text w2)"
proof -
  have s: "\<And>i j. chain self cv_text i = chain self cv_text j" using assms by simp
  show ?thesis
  proof (cases "blank cv_text")
    case True
    then have "cv_text = [] \<or> strip cv_text = []" by (simp add: guard_iff)
    then show ?thesis by (simp add: extract_def extract_sync_def)
  next
    case False
    show ?thesis
      unfolding extract_not_blank [OF False] extract_sync_not_blank [OF False]
      by (intro conjI attempts_stateless [OF s])
  qed
qed

theorem extraction_deterministic_on_stateless_stub_witness:
  "(\<forall>i j. chain stub_demo (lit ''cv'') i = chain stub_demo (lit ''cv'') j)
   \<and> fst (extract_sync stub_demo (lit ''cv'') world0) = Inr (Some demo_profile)
   \<and> fst (extract_sync stub_demo (lit ''cv'') (world0 \<lparr> invocations := 7 \<rparr>))
       = Inr (Some demo_profile)"
proof -
  have h: "\<forall>i j. chain stub_demo (lit ''cv'') i = chain stub_demo (lit ''cv'') j"
    by (simp add: stub_demo_def)
  have nb: "\<not> blank (lit ''cv'')"
    by (simp add: blank_def lit_def py_isspace_def)
  have r: "fst (extract_sync stub_demo (lit ''cv'') world0) = Inr (Some demo_profile)"
    unfolding extract_sync_not_blank [OF nb]
    by (simp add: py_range_def stub_demo_def upt_conv_Cons attempts_success_step)
  from extraction_deterministic_on_stateless_stub
    [OF h, of world0 "world0 \<lparr> invocations := 7 \<rparr>"] h r
  show ?thesis by simp
qed

text \<open>
  Claim C10. With \<open>max_retries\<close> zero or negative and a text that passes the emptiness
  guard, \<open>extract\<close> and \<open>extract_sync\<close> return \<open>None\<close>: no error is raised, no \<open>Profile\<close>
  is returned, and the chain is not invoked.
\<close>

theorem no_attempts_returns_None:
  assumes "max_retries self \<le> 0" and "\<not> blank cv_text"
  shows "fst (extract self cv_text w) = Inr None
       \<and> fst (extract_sync self cv_text w) = Inr None
       \<and> invocations (snd (extract self cv_text w)) = invocations w
       \<and> invocations (snd (extract_sync self cv_text w)) = invocations w"
  using assms(1)
  by (simp add: extract_not_blank [OF assms(2)] extract_sync_not_blank [OF assms(2)]
      py_range_nonpos)

theorem no_attempts_returns_None_witness:
  "max_retries (stub_demo \<lparr> max_retries := 0 \<rparr>) \<le> 0 \<and> \<not> blank (lit ''cv'')
   \<and> fst (extract_sync (stub_demo \<lparr> max_retries := 0 \<rparr>) (lit ''cv'') world0) = Inr None
   \<and> invocations (snd (extract_sync (stub_demo \<lparr> max_retries := 0 \<rparr>) (lit ''cv'') world0))
       = 0"
proof -
  have h1: "max_retries (stub_demo \<lparr> max_retries := 0 \<rparr>) \<le> 0" by simp
  have h2: "\<not> blank (lit ''cv'')"
    by (simp add: blank_def lit_def py_isspace_def)
  from no_attempts_returns_None [OF h1 h2, of world0] h1 h2 show ?thesis
    by (simp add: world0_def)
qed

section \<open>The claims about the scorer\<close>

lemma demo_profile_points:
  "identity_points demo_profile = 30" "work_points demo_profile = 0"
  "education_points demo_profile = 20" "skills_points demo_profile = 10"
  by (simp_all add: identity_points_def work_points_def education_points_def
      skills_points_def demo_profile_def demo_personal_info_def demo_location_def
      demo_education_def demo_skills_def demo_technical_def truthy_str_def
      truthy_opt_str_def truthy_opt_float_def lit_def weight_def)

lemma demo_profile_no_links_points:
  "identity_points demo_profile_no_links = 20" "work_points demo_profile_no_links = 0"
  "education_points demo_profile_no_links = 20" "skills_points demo_profile_no_links = 10"
  by (simp_all add: identity_points_def work_points_def education_points_def
      skills_points_def demo_profile_no_links_def demo_profile_def demo_personal_info_def
      demo_location_def demo_education_def demo_skills_def demo_technical_def
      truthy_str_def truthy_opt_str_def truthy_opt_float_def lit_def weight_def)

text \<open>
  Claim C4. \<open>_calculate_confidence\<close> is a function of the profile alone. Its score is
  the sum of four buckets divided by the sum of their caps, which is 100: identity (cap
  30), work experience (cap 30), education (cap 20) and skills (cap 20). Each bucket lies
  between 0 and its cap, and the score lies in the closed interval from 0 to 1.
\<close>

theorem confidence_four_capped_buckets:
  "calculate_confidence p
     = (identity_points p + work_points p + education_points p + skills_points p)
       / (identity_cap + work_cap + education_cap + skills_cap)
   \<and> identity_cap = 30 \<and> work_cap = 30 \<and> education_cap = 20 \<and> skills_cap = 20
   \<and> identity_cap + work_cap + education_cap + skills_cap = 100
   \<and> 0 \<le> identity_points p \<and> identity_points p \<le> identity_cap
   \<and> 0 \<le> work_points p \<and> work_points p \<le> work_cap
   \<and> 0 \<le> education_points p \<and> education_points p \<le> education_cap
   \<and> 0 \<le> skills_points p \<and> skills_points p \<le> skills_cap
   \<and> 0 \<le> calculate_confidence p \<and> calculate_confidence p \<le> 1"
proof -
  note r = identity_points_range [of p] work_points_range [of p]
    education_points_range [of p] skills_points_range [of p]
  have caps: "identity_cap = 30" "work_cap = 30" "education_cap = 20" "skills_cap = 20"
    by (simp_all add: identity_cap_def work_cap_def education_cap_def skills_cap_def)
  have sum: "identity_cap + work_cap + education_cap + skills_cap = 100"
    by (simp add: caps)
  have eq: "calculate_confidence p
     = (identity_points p + work_points p + education_points p + skills_points p)
       / (identity_cap + work_cap + education_cap + skills_cap)"
    by (simp only: sum calculate_confidence_buckets)
  have lo: "0 \<le> calculate_confidence p"
    using r by (simp add: calculate_confidence_buckets)
  have hi: "calculate_confidence p \<le> 1"
    using r by (simp add: calculate_confidence_buckets caps)
  from eq caps sum r lo hi show ?thesis by simp
qed

theorem confidence_four_capped_buckets_witness:
  "calculate_confidence demo_profile = 6 / 10
   \<and> identity_points demo_profile = identity_cap
   \<and> education_points demo_profile = education_cap"
  using confidence_four_capped_buckets [of demo_profile]
  by (simp add: demo_profile_points)

text \<open>
  Claim C5. With email, phone and city populated and LinkedIn, GitHub and summary
  absent, the identity bucket is exactly 20 of its 30 points: 10 for the email, 5 for the
  phone, 5 for the city. For every profile the score is the sum, over the documented
  weights, of the weights whose field is present, divided by 100.
\<close>

theorem confidence_is_manual_sum:
  "(truthy_str (email (personal_info p)) \<and> truthy_opt_str (phone (personal_info p))
      \<and> truthy_opt_str (city (location (personal_info p)))
      \<and> \<not> truthy_opt_str (linkedin (personal_info p))
      \<and> \<not> truthy_opt_str (github (personal_info p))
      \<and> \<not> truthy_opt_str (summary (personal_info p))
    \<longrightarrow> identity_points p = 10 + 5 + 5
        \<and> calculate_confidence p
            = (20 + work_points p + education_points p + skills_points p) / 100)
   \<and> calculate_confidence p =
      ( weight (truthy_str (email (personal_info p))) 10
      + weight (truthy_opt_str (phone (personal_info p))) 5
      + weight (truthy_opt_str (city (location (personal_info p)))) 5
      + weight (truthy_opt_str (linkedin (personal_info p))
                \<or> truthy_opt_str (github (personal_info p))) 5
      + weight (truthy_opt_str (summary (personal_info p))) 5
      + weight (work_experience p \<noteq> []) 15
      + weight (length (work_experience p) \<ge> 2) 5
      + weight (list_ex (\<lambda>exp. length (responsibilities exp) \<ge> 3) (work_experience p)) 5
      + weight (list_ex (\<lambda>exp. achievements exp \<noteq> []) (work_experience p)) 5
      + weight (education p \<noteq> []) 15
      + weight (list_ex (\<lambda>edu. truthy_opt_float (gpa edu)) (education p)) 5
      + weight (technical (skills p) \<noteq> []) 10
      + weight (length (technical (skills p)) \<ge> 5) 5
      + weight (length (technical (skills p)) \<ge> 10) 5 ) / 100"
proof -
  have a: "truthy_str (email (personal_info p)) \<and> truthy_opt_str (phone (personal_info p))
      \<and> truthy_opt_str (city (location (personal_info p)))
      \<and> \<not> truthy_opt_str (linkedin (personal_info p))
      \<and> \<not> truthy_opt_str (github (personal_info p))
      \<and> \<not> truthy_opt_str (summary (personal_info p))
    \<Longrightarrow> identity_points p = 20"
    by (simp add: identity_points_def weight_def)
  have w: "work_points p =
        weight (work_experience p \<noteq> []) 15
      + weight (length (work_experience p) \<ge> 2) 5
      + weight (list_ex (\<lambda>exp. length (responsibilities exp) \<ge> 3) (work_experience p)) 5
      + weight (list_ex (\<lambda>exp. achievements exp \<noteq> []) (work_experience p)) 5"
    by (cases "work_experience p") (simp_all add: work_points_def weight_def)
  have e: "education_points p =
        weight (education p \<noteq> []) 15
      + weight (list_ex (\<lambda>edu. truthy_opt_float (gpa edu)) (education p)) 5"
    by (cases "education p") (simp_all add: education_points_def weight_def)
  have s: "skills_points p =
        weight (technical (skills p) \<noteq> []) 10
      + weight (length (technical (skills p)) \<ge> 5) 5
      + weight (length (technical (skills p)) \<ge> 10) 5"
    by (cases "technical (skills p)") (simp_all add: skills_points_def weight_def)
  have i: "identity_points p =
        weight (truthy_str (email (personal_info p))) 10
      + weight (truthy_opt_str (phone (personal_info p))) 5
      + weight (truthy_opt_str (city (location (personal_info p)))) 5
      + weight (truthy_opt_str (linkedin (personal_info p))
                \<or> truthy_opt_str (github (personal_info p))) 5
      + weight (truthy_opt_str (summary (personal_info p))) 5"
    by (simp add: identity_points_def)
  have g: "calculate_confidence p =
      (identity_points p + work_points p + education_points p + skills_points p) / 100"
    by (rule calculate_confidence_buckets)
  show ?thesis
  proof (intro conjI impI)
    assume h: "truthy_str (email (personal_info p)) \<and> truthy_opt_str (phone (personal_info p))
      \<and> truthy_opt_str (city (location (personal_info p)))
      \<and> \<not> truthy_opt_str (linkedin (personal_info p))
      \<and> \<not> truthy_opt_str (github (personal_info p))
      \<and> \<not> truthy_opt_str (summary (personal_info p))"
    from a [OF h] show "identity_points p = 10 + 5 + 5" by simp
    from a [OF h] g
    show "calculate_confidence p
            = (20 + work_points p + education_points p + skills_points p) / 100"
      by simp
  next
    show "calculate_confidence p =
      ( weight (truthy_str (email (personal_info p))) 10
      + weight (truthy_opt_str (phone (personal_info p))) 5
      + weight (truthy_opt_str (city (location (personal_info p)))) 5
      + weight (truthy_opt_str (linkedin (personal_info p))
                \<or> truthy_opt_str (github (personal_info p))) 5
      + weight (truthy_opt_str (summary (personal_info p))) 5
      + weight (work_experience p \<noteq> []) 15
      + weight (length (work_experience p) \<ge> 2) 5
      + weight (list_ex (\<lambda>exp. length (responsibilities exp) \<ge> 3) (work_experience p)) 5
      + weight (list_ex (\<lambda>exp. achievements exp \<noteq> []) (work_experience p)) 5
      + weight (education p \<noteq> []) 15
      + weight (list_ex (\<lambda>edu. truthy_opt_float (gpa edu)) (education p)) 5
      + weight (technical (skills p) \<noteq> []) 10
      + weight (length (technical (skills p)) \<ge> 5) 5
      + weight (length (technical (skills p)) \<ge> 10) 5 ) / 100"
      unfolding g i w e s by (simp only: add.assoc)
  qed
qed

theorem confidence_is_manual_sum_witness:
  "truthy_str (email (personal_info demo_profile_no_links))
   \<and> truthy_opt_str (phone (personal_info demo_profile_no_links))
   \<and> truthy_opt_str (city (location (personal_info demo_profile_no_links)))
   \<and> \<not> truthy_opt_str (linkedin (personal_info demo_profile_no_links))
   \<and> \<not> truthy_opt_str (github (personal_info demo_profile_no_links))
   \<and> \<not> truthy_opt_str (summary (personal_info demo_profile_no_links))
   \<and> identity_points demo_profile_no_links = 20
   \<and> calculate_confidence demo_profile_no_links = 5 / 10"
proof -
  have h: "truthy_str (email (personal_info demo_profile_no_links))
   \<and> truthy_opt_str (phone (personal_info demo_profile_no_links))
   \<and> truthy_opt_str (city (location (personal_info demo_profile_no_links)))
   \<and> \<not> truthy_opt_str (linkedin (personal_info demo_profile_no_links))
   \<and> \<not> truthy_opt_str (github (personal_info demo_profile_no_links))
   \<and> \<not> truthy_opt_str (summary (personal_info demo_profile_no_links))"
    by (simp add: demo_profile_no_links_def demo_profile_def demo_personal_info_def
        demo_location_def truthy_str_def truthy_opt_str_def lit_def)
  from confidence_is_manual_sum [of demo_profile_no_links] h show ?thesis
    by (simp add: demo_profile_no_links_points)
qed

text \<open>
  Claim C6. When \<open>q\<close> populates a superset of what \<open>p\<close> populates (\<open>Profile_ext p q\<close>:
  equal required fields, every optional field of \<open>p\<close> that is populated has the same
  value in \<open>q\<close>, every list of \<open>q\<close> at least as long and with an entry extending each
  entry of \<open>p\<close>), the score of \<open>q\<close> is at least the score of \<open>p\<close>.
\<close>

theorem confidence_monotone:
  assumes "Profile_ext p q"
  shows "calculate_confidence p \<le> calculate_confidence q"
proof -
  from assms have pi: "PersonalInfo_ext (personal_info p) (personal_info q)"
    and we: "entries_ext WorkExperience_ext (work_experience p) (work_experience q)"
    and ed: "entries_ext Education_ext (education p) (education q)"
    and sk: "entries_ext TechnicalSkill_ext (technical (skills p)) (technical (skills q))"
    by (simp_all add: Profile_ext_def Skills_ext_def)
  from identity_points_mono [OF pi] work_points_mono [OF we] education_points_mono [OF ed]
    skills_points_mono [OF sk]
  show ?thesis
    by (simp add: calculate_confidence_buckets divide_right_mono)
qed

lemma opt_ext_simps: "opt_ext None b" "opt_ext (Some x) b \<longleftrightarrow> b = Some x"
  by (simp_all add: opt_ext_def)

lemma entries_ext_refl: "(\<And>x. x \<in> set xs \<Longrightarrow> R x x) \<Longrightarrow> entries_ext R xs xs"
  by (auto simp: entries_ext_def list_all_iff list_ex_iff)

lemma demo_profile_extends_no_links: "Profile_ext demo_profile_no_links demo_profile"
proof -
  have pi: "PersonalInfo_ext (personal_info demo_profile_no_links) (personal_info demo_profile)"
    by (simp add: PersonalInfo_ext_def Location_ext_def demo_profile_no_links_def
        demo_profile_def demo_personal_info_def demo_location_def opt_ext_simps
        opt_entries_ext_def)
  have ed: "entries_ext Education_ext [demo_education] [demo_education]"
    by (rule entries_ext_refl)
      (simp add: Education_ext_def demo_education_def opt_ext_simps opt_entries_ext_def
        entries_ext_refl)
  have ts: "entries_ext TechnicalSkill_ext demo_technical demo_technical"
    by (rule entries_ext_refl)
      (auto simp: TechnicalSkill_ext_def demo_technical_def opt_ext_simps)
  have ss: "entries_ext SoftSkill_ext (soft demo_skills) (soft demo_skills)"
    by (rule entries_ext_refl) (auto simp: SoftSkill_ext_def demo_skills_def opt_ext_simps)
  have ls: "entries_ext LanguageSkill_ext (languages demo_skills) (languages demo_skills)"
    by (rule entries_ext_refl)
      (auto simp: LanguageSkill_ext_def demo_skills_def opt_entries_ext_def)
  have sk: "Skills_ext demo_skills demo_skills"
    using ts ss ls by (simp add: Skills_ext_def) (simp add: demo_skills_def)
  show ?thesis
    using pi ed sk
    by (simp add: Profile_ext_def demo_profile_no_links_def demo_profile_def
        opt_entries_ext_def entries_ext_def)
qed

theorem confidence_monotone_witness:
  "Profile_ext demo_profile_no_links demo_profile
   \<and> calculate_confidence demo_profile_no_links = 5 / 10
   \<and> calculate_confidence demo_profile = 6 / 10
   \<and> calculate_confidence demo_profile_no_links \<le> calculate_confidence demo_profile"
  using confidence_monotone [OF demo_profile_extends_no_links]
    demo_profile_extends_no_links
  by (simp add: calculate_confidence_buckets demo_profile_points
      demo_profile_no_links_points)

section \<open>The claim about the job-matching endpoint\<close>

text \<open>
  Claim C8. Whatever the request, \<open>match_jobs\<close> returns the same response: one
  \<open>MatchResult\<close>, with \<open>job_id\<close> "job\_mock\_123" and \<open>score\<close> 87.5 (which passes the bounds
  declared for \<open>score\<close>), \<open>total_jobs = 1\<close> and \<open>matched_jobs = 1\<close>.
\<close>

theorem match_jobs_hardcoded:
  "match_jobs request
     = Inr \<lparr> matches = [mock_match_fields], total_jobs = 1, matched_jobs = 1 \<rparr>
   \<and> job_id mock_match_fields = lit ''job_mock_123''
   \<and> score mock_match_fields = 87.5
   \<and> match_jobs request = match_jobs request'"
  by (simp add: match_jobs_def new_MatchResult_def mock_match_fields_def)

theorem match_jobs_hardcoded_witness:
  "match_jobs request_a = match_jobs request_b
   \<and> (\<exists>r. match_jobs request_a = Inr r \<and> length (matches r) = 1
        \<and> job_id (hd (matches r)) = lit ''job_mock_123'' \<and> score (hd (matches r)) = 87.5
        \<and> total_jobs r = 1 \<and> matched_jobs r = 1)"
  using match_jobs_hardcoded [of request_a request_b]
  by auto

section \<open>Properties of the field validator\<close>

lemma py_sorted_reverse_descending:
  "sorted (rev (map key (py_sorted_reverse key v)))"
  by (simp add: py_sorted_reverse_def rev_map)

lemma set_py_sorted_reverse: "set (py_sorted_reverse key v) = set v"
  by (simp add: py_sorted_reverse_def)

lemma length_py_sorted_reverse: "length (py_sorted_reverse key v) = length v"
  by (simp add: py_sorted_reverse_def)

lemma sort_by_date_start_date:
  assumes "\<And>x. hasattr start_date_attr x"
  shows "sort_by_date start_date_attr graduation_date_attr v =
     py_sorted_reverse (\<lambda>x. case start_date_attr x of None \<Rightarrow> [] | Some d \<Rightarrow> or_empty d) v"
proof (cases "v = []")
  case True
  then show ?thesis by (simp add: sort_by_date_def py_sorted_reverse_def)
next
  case False
  have "list_all (hasattr start_date_attr) v"
    using assms by (simp add: list_all_iff)
  with False assms show ?thesis
    by (simp add: sort_by_date_def sorted_by_attr_def)
qed

lemma hasattr_Education_start_date: "hasattr Education_start_date e"
  by (simp add: hasattr_def Education_start_date_def)

lemma hasattr_WorkExperience_start_date: "hasattr WorkExperience_start_date e"
  by (simp add: hasattr_def WorkExperience_start_date_def)

lemma sort_by_date_Education:
  "sort_by_date Education_start_date graduation_date_attr v =
     py_sorted_reverse (\<lambda>e. or_empty (edu_start_date e)) v"
  using sort_by_date_start_date [of Education_start_date graduation_date_attr v]
  by (simp add: hasattr_Education_start_date Education_start_date_def)

lemma sort_by_date_WorkExperience:
  "sort_by_date WorkExperience_start_date graduation_date_attr v =
     py_sorted_reverse we_start_date v"
  using sort_by_date_start_date [of WorkExperience_start_date graduation_date_attr v]
  by (simp add: hasattr_WorkExperience_start_date WorkExperience_start_date_def or_empty_def)

lemma descending_empty_last:
  fixes ks :: "ustr list"
  assumes "sorted (rev ks)" and "i < j" and "j < length ks" and "ks ! i = []"
  shows "ks ! j = []"
proof -
  have "sorted_wrt (\<lambda>x y. y \<le> x) ks"
    using assms(1) by (simp add: sorted_wrt_rev)
  then have "ks ! j \<le> ks ! i"
    using assms(2,3) by (simp add: sorted_wrt_iff_nth_less)
  then show ?thesis
    using assms(4) by simp
qed

lemma validate_Profile_lists:
  assumes "validate_Profile L v = Some p"
  shows "\<exists>ws es. work_experience p
             = sort_by_date WorkExperience_start_date WorkExperience_graduation_date ws
         \<and> education p = sort_by_date Education_start_date Education_graduation_date es"
  using assms
  by (cases v) (auto simp: validate_Profile_def bind_eq_Some_conv)

text \<open>
  Claim C9. In every profile that validation returns, \<open>work_experience\<close> and \<open>education\<close>
  are in descending lexicographic order of \<open>start_date or ''\<close>; an education entry
  without \<open>start_date\<close> has the key \<open>''\<close>, and every entry after it has the key \<open>''\<close> too.
  Every \<open>Education\<close> has the attribute \<open>start_date\<close>, so the validator takes its first
  branch: whatever the \<open>graduation_date\<close> attribute is, the result is the list sorted by
  \<open>start_date or ''\<close>.
\<close>

theorem constructed_profile_sorted_by_start_date:
  assumes "validate_Profile L v = Some p"
  shows "sorted (rev (map we_start_date (work_experience p)))
       \<and> sorted (rev (map (\<lambda>e. or_empty (edu_start_date e)) (education p)))
       \<and> (\<forall>i j. i < j \<and> j < length (education p) \<and> edu_start_date (education p ! i) = None
             \<longrightarrow> or_empty (edu_start_date (education p ! j)) = [])
       \<and> (\<forall>e. hasattr Education_start_date e)
       \<and> (\<forall>graduation_date_attr es.
             sort_by_date Education_start_date graduation_date_attr es
               = py_sorted_reverse (\<lambda>e. or_empty (edu_start_date e)) es)"
proof -
  from validate_Profile_lists [OF assms] obtain ws es
    where w: "work_experience p
               = sort_by_date WorkExperience_start_date WorkExperience_graduation_date ws"
      and e: "education p = sort_by_date Education_start_date Education_graduation_date es"
    by blast
  have sw: "sorted (rev (map we_start_date (work_experience p)))"
    unfolding w sort_by_date_WorkExperience by (rule py_sorted_reverse_descending)
  have se: "sorted (rev (map (\<lambda>e. or_empty (edu_start_date e)) (education p)))"
    unfolding e sort_by_date_Education by (rule py_sorted_reverse_descending)
  have last: "\<forall>i j. i < j \<and> j < length (education p) \<and> edu_start_date (education p ! i) = None
             \<longrightarrow> or_empty (edu_start_date (education p ! j)) = []"
  proof (intro allI impI)
    fix i j
    assume h: "i < j \<and> j < length (education p) \<and> edu_start_date (education p ! i) = None"
    let ?ks = "map (\<lambda>e. or_empty (edu_start_date e)) (education p)"
    have "?ks ! j = []"
    proof (rule descending_empty_last [OF se])
      show "i < j" using h by simp
      show "j < length ?ks" using h by simp
      show "?ks ! i = []" using h by (simp add: or_empty_def)
    qed
    then show "or_empty (edu_start_date (education p ! j)) = []"
      using h by simp
  qed
  from sw se last show ?thesis
    by (simp add: hasattr_Education_start_date sort_by_date_Education)
qed

section \<open>Validation accepts only what the schema describes\<close>

lemma conforms_TModel_JObj:
  "conforms C (TModel fs) (JObj kv) = list_all (field_ok C kv) fs"
  by (simp add: field_ok_def [abs_def])

lemma str_min_ok: "str_min (lax_leaves C) n v = Some y \<Longrightarrow> conforms C (TStr n) v"
  by (cases v) (auto simp: str_min_def lax_leaves_def split: if_splits)

lemma as_email_ok: "as_email (lax_leaves C) v = Some y \<Longrightarrow> conforms C TEmail v"
  by (cases v) (auto simp: lax_leaves_def)

lemma as_bool_ok: "as_bool (lax_leaves C) v = Some y \<Longrightarrow> conforms C TBool v"
  by (cases v)
    (auto simp: lax_leaves_def bool_of_num_def bool_of_str_def split: if_splits)

lemma float_in_ok:
  "float_in (lax_leaves C) ge le v = Some y \<Longrightarrow> conforms C (TFloat ge le) v"
  by (cases v)
    (auto simp: float_in_def lax_leaves_def in_bounds_def split: option.splits if_splits)

lemma enum_of_ok: "enum_of values v = Some y \<Longrightarrow> conforms C (TEnum (map fst values)) v"
  by (cases v) (auto simp: enum_of_def dest: map_of_SomeD intro: rev_image_eqI)

lemma those_Some_all: "those xs = Some ys \<Longrightarrow> \<forall>x\<in>set xs. x \<noteq> None"
  by (induction xs arbitrary: ys) (auto split: option.splits)

lemma list_of_ok:
  assumes "list_of val v = Some ys" and "\<And>u y. val u = Some y \<Longrightarrow> conforms C t u"
  shows "conforms C (TList t) v"
proof -
  from assms(1) obtain xs where v: "v = JArr xs" and t: "those (map val xs) = Some ys"
    by (cases v) (simp_all add: list_of_def)
  from those_Some_all [OF t] have "\<forall>x\<in>set xs. val x \<noteq> None" by simp
  with assms(2) have "\<forall>x\<in>set xs. conforms C t x" by blast
  with v show ?thesis by (simp add: list_all_iff)
qed

lemma required_ok:
  assumes "required val kv ns = Some x" and "\<And>u y. val u = Some y \<Longrightarrow> conforms C t u"
  shows "field_ok C kv (ns, True, t)"
  using assms by (auto simp: required_def field_ok_def split: option.splits)

lemma with_default_ok:
  assumes "with_default d val kv ns = Some x" and "\<And>u y. val u = Some y \<Longrightarrow> conforms C t u"
  shows "field_ok C kv (ns, False, t)"
  using assms by (auto simp: with_default_def field_ok_def split: option.splits)

lemma optional_ok:
  assumes "optional val kv ns = Some x" and "\<And>u y. val u = Some y \<Longrightarrow> conforms C t u"
  shows "field_ok C kv (ns, False, TOpt t)"
  using assms
  by (auto simp: optional_def with_default_def nullable_def field_ok_def
      split: option.splits if_splits)

declare conforms.simps(8) [simp del]

named_theorems schema_intros

lemmas [schema_intros] = required_ok with_default_ok optional_ok str_min_ok as_email_ok
  as_bool_ok float_in_ok enum_of_ok list_of_ok

lemma validate_Location_conforms:
  "validate_Location (lax_leaves C) v = Some x \<Longrightarrow> conforms C Location_schema v"
  by (cases v)
    (auto simp: validate_Location_def Location_schema_def conforms_TModel_JObj bind_eq_Some_conv
      intro!: schema_intros)

lemmas [schema_intros] = validate_Location_conforms

lemma validate_PersonalInfo_conforms:
  "validate_PersonalInfo (lax_leaves C) v = Some x \<Longrightarrow> conforms C PersonalInfo_schema v"
  by (cases v)
    (auto simp: validate_PersonalInfo_def PersonalInfo_schema_def conforms_TModel_JObj bind_eq_Some_conv
      intro!: schema_intros)

lemmas [schema_intros] = validate_PersonalInfo_conforms

lemma validate_Achievement_conforms:
  "validate_Achievement (lax_leaves C) v = Some x \<Longrightarrow> conforms C Achievement_schema v"
  by (cases v)
    (auto simp: validate_Achievement_def Achievement_schema_def conforms_TModel_JObj bind_eq_Some_conv
      intro!: schema_intros)

lemmas [schema_intros] = validate_Achievement_conforms

lemma validate_WorkExperience_conforms:
  "validate_WorkExperience (lax_leaves C) v = Some x \<Longrightarrow> conforms C WorkExperience_schema v"
  by (cases v)
    (auto simp: validate_WorkExperience_def WorkExperience_schema_def conforms_TModel_JObj bind_eq_Some_conv
      intro!: schema_intros)

lemmas [schema_intros] = validate_WorkExperience_conforms

lemma validate_Education_conforms:
  "validate_Education (lax_leaves C) v = Some x \<Longrightarrow> conforms C Education_schema v"
  by (cases v)
    (auto simp: validate_Education_def Education_schema_def conforms_TModel_JObj bind_eq_Some_conv
      intro!: schema_intros)

lemmas [schema_intros] = validate_Education_conforms

lemma validate_TechnicalSkill_conforms:
  "validate_TechnicalSkill (lax_leaves C) v = Some x \<Longrightarrow> conforms C TechnicalSkill_schema v"
  by (cases v)
    (auto simp: validate_TechnicalSkill_def TechnicalSkill_schema_def conforms_TModel_JObj bind_eq_Some_conv
      intro!: schema_intros)

lemmas [schema_intros] = validate_TechnicalSkill_conforms

lemma validate_SoftSkill_conforms:
  "validate_SoftSkill (lax_leaves C) v = Some x \<Longrightarrow> conforms C SoftSkill_schema v"
  by (cases v)
    (auto simp: validate_SoftSkill_def SoftSkill_schema_def conforms_TModel_JObj bind_eq_Some_conv
      intro!: schema_intros)

lemmas [schema_intros] = validate_SoftSkill_conforms

lemma validate_LanguageSkill_conforms:
  "validate_LanguageSkill (lax_leaves C) v = Some x \<Longrightarrow> conforms C LanguageSkill_schema v"
  by (cases v)
    (auto simp: validate_LanguageSkill_def LanguageSkill_schema_def conforms_TModel_JObj bind_eq_Some_conv
      intro!: schema_intros)

lemmas [schema_intros] = validate_LanguageSkill_conforms

lemma validate_Skills_conforms:
  "validate_Skills (lax_leaves C) v = Some x \<Longrightarrow> conforms C Skills_schema v"
  by (cases v)
    (auto simp: validate_Skills_def Skills_schema_def conforms_TModel_JObj bind_eq_Some_conv
      intro!: schema_intros)

lemmas [schema_intros] = validate_Skills_conforms

lemma validate_Certification_conforms:
  "validate_Certification (lax_leaves C) v = Some x \<Longrightarrow> conforms C Certification_schema v"
  by (cases v)
    (auto simp: validate_Certification_def Certification_schema_def conforms_TModel_JObj bind_eq_Some_conv
      intro!: schema_intros)

lemmas [schema_intros] = validate_Certification_conforms

lemma validate_Project_conforms:
  "validate_Project (lax_leaves C) v = Some x \<Longrightarrow> conforms C Project_schema v"
  by (cases v)
    (auto simp: validate_Project_def Project_schema_def conforms_TModel_JObj bind_eq_Some_conv
      intro!: schema_intros)

lemmas [schema_intros] = validate_Project_conforms

lemma validate_Profile_conforms:
  "validate_Profile (lax_leaves C) v = Some x \<Longrightarrow> conforms C Profile_schema v"
  by (cases v)
    (auto simp: validate_Profile_def Profile_schema_def conforms_TModel_JObj bind_eq_Some_conv
      intro!: schema_intros)

lemmas [schema_intros] = validate_Profile_conforms

lemma omitted_required_violates:
  assumes "(ns, True, t) \<in> set fs" and "lookup kv ns = None"
  shows "\<not> conforms C (TModel fs) (JObj kv)"
proof -
  have "\<not> field_ok C kv (ns, True, t)"
    by (simp add: field_ok_def assms(2))
  with assms(1) show ?thesis
    by (auto simp: conforms_TModel_JObj list_all_iff)
qed

lemma wrong_type_violates:
  assumes "(ns, r, t) \<in> set fs" and "lookup kv ns = Some x" and "\<not> conforms C t x"
  shows "\<not> conforms C (TModel fs) (JObj kv)"
proof -
  have "\<not> field_ok C kv (ns, r, t)"
    by (simp add: field_ok_def assms(2,3))
  with assms(1) show ?thesis
    by (auto simp: conforms_TModel_JObj list_all_iff)
qed

lemma omitting_email_violates:
  assumes "lookup kv [lit ''personalInfo'', lit ''personal_info''] = Some (JObj pkv)"
    and "lookup pkv [lit ''email''] = None"
  shows "\<not> conforms C Profile_schema (JObj kv)"
proof -
  have pi: "\<not> conforms C PersonalInfo_schema (JObj pkv)"
    unfolding PersonalInfo_schema_def
    by (rule omitted_required_violates [where t = TEmail, OF _ assms(2)]) simp
  show ?thesis
    unfolding Profile_schema_def
    by (rule wrong_type_violates
          [where r = True and t = PersonalInfo_schema, OF _ assms(1) pi]) simp
qed

text \<open>
  What the default mode takes for a \<open>str\<close> and for a \<open>bool\<close>: a value of another JSON
  type is of the wrong type for a \<open>str\<close> field, but not always for a \<open>bool\<close> field.
\<close>

lemma conforms_TStr: "conforms C (TStr n) v \<longleftrightarrow> (\<exists>s. v = JStr s \<and> n \<le> length s)"
  by (cases v) simp_all

lemma conforms_TBool_yes: "conforms C TBool (JStr (lit ''yes''))"
  by (simp add: ascii_lower_def false_words_def true_words_def lit_def)

lemma conforms_TBool_other:
  "\<not> conforms C TBool JNull" "\<not> conforms C TBool (JArr xs)" "\<not> conforms C TBool (JObj kv)"
  "\<not> conforms C TBool (JNum 2)" "\<not> conforms C TBool (JStr (lit ''maybe''))"
  by (simp_all add: ascii_lower_def false_words_def true_words_def lit_def)



lemma log_after_transport_failure:
  "log (after_failure (OtherException m) a n w) =
     log w @ [(LogError,
        lit ''CV extraction failed (attempt '' @ str_int (int a + 1) @ lit ''/'' @ str_int n
        @ lit ''): '' @ m)]"
  by (simp add: after_failure_def logger_def invoked_def)

section \<open>The claims about validation\<close>




theorem constructed_profile_sorted_by_start_date_witness:
  "\<exists>p. validate_Profile (lax_leaves example_coercions) example_response = Some p
     \<and> map we_id (work_experience p) = [lit ''exp_2'', lit ''exp_1'']
     \<and> map edu_id (education p) = [lit ''edu_3'', lit ''edu_2'', lit ''edu_1'']
     \<and> sorted (rev (map we_start_date (work_experience p)))
     \<and> sorted (rev (map (\<lambda>e. or_empty (edu_start_date e)) (education p)))"
proof -
  have "map_option (\<lambda>p. (map we_id (work_experience p), map edu_id (education p)))
          (validate_Profile (lax_leaves example_coercions) example_response)
      = Some ([lit ''exp_2'', lit ''exp_1''], [lit ''edu_3'', lit ''edu_2'', lit ''edu_1''])"
    by code_simp
  then obtain p
    where p: "validate_Profile (lax_leaves example_coercions) example_response = Some p"
    and w: "map we_id (work_experience p) = [lit ''exp_2'', lit ''exp_1'']"
    and e: "map edu_id (education p) = [lit ''edu_3'', lit ''edu_2'', lit ''edu_1'']"
    by (cases "validate_Profile (lax_leaves example_coercions) example_response") simp_all
  note c = constructed_profile_sorted_by_start_date [OF p]
  note s1 = c [THEN conjunct1]
  note s2 = c [THEN conjunct2, THEN conjunct1]
  show ?thesis
    by (rule exI [of _ p]) (intro conjI p w e s1 s2)
qed

end
